theory Spec2Isabelle
  imports Main "HOL-Library.Word"
begin

section \<open>C strings and the libc routines used by the HTTP server\<close>

text \<open>
  The server in \<^verbatim>\<open>src/supplemental/http/server.c\<close> works on NUL-terminated byte strings.
  A value of type \<^typ>\<open>string\<close> stands for the bytes of a C string before its terminator.
  Where the code writes into a buffer and reads it again (the URI canonifier), the buffer
  is a \<^typ>\<open>char list\<close> holding every byte of the allocation, terminators included, and a
  pointer into it is an offset.
\<close>

definition NUL :: char where
  "NUL = CHR 0x00"

abbreviation byte :: "char \<Rightarrow> nat" where
  "byte c \<equiv> of_char c"

datatype cerr = Overrun | NullPointer

type_synonym mem = "char list"

definition cstr :: "mem \<Rightarrow> nat \<Rightarrow> string" where
  \<comment> \<open>the C string that starts at offset \<open>p\<close> of the buffer\<close>
  "cstr m p = takeWhile (\<lambda>c. c \<noteq> NUL) (drop p m)"

datatype cptr = Buf nat | Lit string

fun cstr_of :: "mem \<Rightarrow> cptr \<Rightarrow> string" where
  "cstr_of m (Buf p) = cstr m p"
| "cstr_of m (Lit s) = s"

fun strchr_scan :: "char list \<Rightarrow> nat \<Rightarrow> char \<Rightarrow> cerr + nat option" where
  "strchr_scan [] p c = Inl Overrun"
| "strchr_scan (x # xs) p c =
     (if x = c then Inr (Some p)
      else if x = NUL then Inr None
      else strchr_scan xs (Suc p) c)"

definition strchr :: "mem \<Rightarrow> nat \<Rightarrow> char \<Rightarrow> cerr + nat option" where
  \<comment> \<open>\<open>strchr(m + p, c)\<close>: the offset of the first \<open>c\<close> before the terminator, \<open>None\<close> for
      a null result; running off the allocation is an error\<close>
  "strchr m p c = strchr_scan (drop p m) p c"

fun strcmp :: "string \<Rightarrow> string \<Rightarrow> int" where
  "strcmp [] [] = 0"
| "strcmp [] (y # ys) = - 1"
| "strcmp (x # xs) [] = 1"
| "strcmp (x # xs) (y # ys) =
     (if x = y then strcmp xs ys else if byte x < byte y then - 1 else 1)"

fun strncmp :: "string \<Rightarrow> string \<Rightarrow> nat \<Rightarrow> int" where
  "strncmp xs ys 0 = 0"
| "strncmp [] [] (Suc n) = 0"
| "strncmp [] (y # ys) (Suc n) = - 1"
| "strncmp (x # xs) [] (Suc n) = 1"
| "strncmp (x # xs) (y # ys) (Suc n) =
     (if x = y then strncmp xs ys n else if byte x < byte y then - 1 else 1)"

fun strstr :: "string \<Rightarrow> string \<Rightarrow> nat option" where
  "strstr [] needle = (if needle = [] then Some 0 else None)"
| "strstr (x # xs) needle =
     (if take (length needle) (x # xs) = needle then Some 0
      else map_option Suc (strstr xs needle))"

definition isxdigit :: "char \<Rightarrow> bool" where
  "isxdigit c =
     ((byte CHR ''0'' \<le> byte c \<and> byte c \<le> byte CHR ''9'') \<or>
      (byte CHR ''a'' \<le> byte c \<and> byte c \<le> byte CHR ''f'') \<or>
      (byte CHR ''A'' \<le> byte c \<and> byte c \<le> byte CHR ''F''))"

definition tolower :: "char \<Rightarrow> char" where
  "tolower c =
     (if byte CHR ''A'' \<le> byte c \<and> byte c \<le> byte CHR ''Z'' then char_of (byte c + 32) else c)"

text \<open>
  Modelled from the spec: \<^verbatim>\<open>nni_strcasecmp\<close>, \<^verbatim>\<open>nni_strncasecmp\<close> and \<^verbatim>\<open>nni_strcasestr\<close> are
  declared in the library core, outside this file. The specification calls them the
  case-insensitive comparison, bounded comparison and substring search; they are the
  routines above on the lower-cased bytes.
\<close>

definition nni_strcasecmp :: "string \<Rightarrow> string \<Rightarrow> int" where
  "nni_strcasecmp s1 s2 = strcmp (map tolower s1) (map tolower s2)"

definition nni_strncasecmp :: "string \<Rightarrow> string \<Rightarrow> nat \<Rightarrow> int" where
  "nni_strncasecmp s1 s2 n = strncmp (map tolower s1) (map tolower s2) n"

definition nni_strcasestr :: "string \<Rightarrow> string \<Rightarrow> nat option" where
  "nni_strcasestr s1 s2 = strstr (map tolower s1) (map tolower s2)"

section \<open>URI canonifier\<close>

definition http_hexval :: "char \<Rightarrow> char" where
  "http_hexval c =
     (if byte CHR ''0'' \<le> byte c \<and> byte c \<le> byte CHR ''9'' then char_of (byte c - byte CHR ''0'')
      else if byte CHR ''a'' \<le> byte c \<and> byte c \<le> byte CHR ''f''
        then char_of ((byte c - byte CHR ''a'') + 10)
      else if byte CHR ''A'' \<le> byte c \<and> byte c \<le> byte CHR ''F''
        then char_of ((byte c - byte CHR ''A'') + 10)
      else char_of (0 :: nat))"

text \<open>
  The unescaping loop of \<^verbatim>\<open>http_uri_canonify\<close>. \<open>tmp\<close> is the read offset and \<open>dst\<close> the
  write offset. A read at or beyond the end of the allocation is the error \<open>Overrun\<close>.
  The loop is entered with \<open>dst = tmp\<close> and \<open>dst\<close> never advances faster than \<open>tmp\<close>, so
  every write lands on an offset that was read before.

  In the source the branch for a well-formed escape stores the decoded byte, advances
  \<open>tmp\<close> by three and then runs into the two statements after it, which store \<open>c\<close> once
  more and advance \<open>tmp\<close> again; \<open>m1\<close>, \<open>dst1\<close> and \<open>tmp1\<close> are the state at that point.
\<close>

function canonify_loop :: "mem \<Rightarrow> nat \<Rightarrow> nat \<Rightarrow> cerr + mem" where
  "canonify_loop m tmp dst =
     (if length m \<le> tmp then Inl Overrun
      else if m ! tmp = NUL then Inr (m[dst := NUL])
      else if m ! tmp \<noteq> CHR ''%'' then canonify_loop (m[dst := m ! tmp]) (tmp + 1) (dst + 1)
      else if length m \<le> tmp + 1 then Inl Overrun
      else if isxdigit (m ! (tmp + 1)) \<and> length m \<le> tmp + 2 then Inl Overrun
      else if isxdigit (m ! (tmp + 1)) \<and> isxdigit (m ! (tmp + 2)) then
        (let c = char_of (byte (http_hexval (m ! (tmp + 1))) * 16 + byte (http_hexval (m ! (tmp + 2))));
             m1 = m[dst := c]; dst1 = dst + 1; tmp1 = tmp + 3
         in canonify_loop (m1[dst1 := c]) (tmp1 + 1) (dst1 + 1))
      else canonify_loop (m[dst := m ! tmp]) (tmp + 1) (dst + 1))"
  by pat_completeness auto
termination
  by (relation "measure (\<lambda>(m, tmp, dst). length m - tmp)") auto

declare canonify_loop.simps [simp del]

definition http_uri_canonify :: "mem \<Rightarrow> nat \<Rightarrow> cerr + (mem \<times> cptr)" where
  "http_uri_canonify m path =
     (case strchr m path (CHR ''?'') of
        Inl e \<Rightarrow> Inl e
      | Inr q \<Rightarrow>
          (let m1 = (case q of Some tmp \<Rightarrow> m[tmp := NUL] | None \<Rightarrow> m) in
           if nni_strncasecmp (cstr m1 path) ''http://'' (length ''http://'') = 0 \<or>
              nni_strncasecmp (cstr m1 path) ''https://'' (length ''https://'') = 0
           then
             (case strchr m1 path (CHR '':'') of
                Inl e \<Rightarrow> Inl e
              | Inr None \<Rightarrow> Inl NullPointer
              | Inr (Some colon) \<Rightarrow>
                  (case strchr m1 (colon + 3) (CHR ''/'') of
                     Inl e \<Rightarrow> Inl e
                   | Inr None \<Rightarrow> Inr (m1, Lit ''/'')
                   | Inr (Some path') \<Rightarrow>
                       (case canonify_loop m1 path' path' of
                          Inl e \<Rightarrow> Inl e
                        | Inr m2 \<Rightarrow> Inr (m2, Buf path'))))
           else
             (case canonify_loop m1 path path of
                Inl e \<Rightarrow> Inl e
              | Inr m2 \<Rightarrow> Inr (m2, Buf path))))"

text \<open>
  \<^verbatim>\<open>http_sconn_rxdone\<close> copies the request URI into a fresh allocation of
  \<open>strlen(val) + 1\<close> bytes and canonifies the copy; \<open>canonify_uri\<close> is that call, from the
  URI string to the path string the lookup sees.
\<close>

definition canonify_uri :: "string \<Rightarrow> cerr + string" where
  "canonify_uri val =
     (case http_uri_canonify (val @ [NUL]) 0 of
        Inl e \<Rightarrow> Inl e
      | Inr (m, p) \<Rightarrow> Inr (cstr_of m p))"

text \<open>
  Two predicates on path strings, used to say which strings the canonifier leaves alone:
  \<open>has_escape\<close> holds when some \<open>%\<close> is followed by two hexadecimal digits, and
  \<open>has_scheme\<close> is the test the canonifier makes for an absolute URI.
\<close>

fun has_escape :: "string \<Rightarrow> bool" where
  "has_escape [] = False"
| "has_escape (c # cs) =
     ((c = CHR ''%'' \<and> (case cs of h1 # h2 # _ \<Rightarrow> isxdigit h1 \<and> isxdigit h2 | _ \<Rightarrow> False))
      \<or> has_escape cs)"

definition has_scheme :: "string \<Rightarrow> bool" where
  "has_scheme p =
     (nni_strncasecmp p ''http://'' (length ''http://'') = 0 \<or>
      nni_strncasecmp p ''https://'' (length ''https://'') = 0)"

section \<open>Handler records and the registry\<close>

text \<open>
  Opaque pointers (callback, argument, destructor, transport) are addresses of type
  \<^typ>\<open>nat\<close>, and a pointer that may be null is an \<^typ>\<open>'a option\<close>. The C \<^verbatim>\<open>int\<close> counters
  are 32-bit words, so that \<open>++\<close> and \<open>--\<close> wrap.
\<close>

type_synonym cint = "32 word"

datatype nng_err = NNG_EINVAL | NNG_ENOMEM | NNG_EADDRINUSE

record http_handler =
  h_arg :: nat
  h_path :: string
  h_method :: string
  h_host :: "string option"
  h_is_upgrader :: bool
  h_is_dir :: bool
  h_refcnt :: cint
  h_cb :: nat
  h_free :: "nat option"

text \<open>
  Modelled from the spec: the caller's handler description \<^verbatim>\<open>nni_http_handler\<close> is declared
  in \<^verbatim>\<open>http.h\<close>; these are the fields that \<^verbatim>\<open>http_server_add_handler\<close> reads.
\<close>

record nni_http_handler =
  hh_path :: "string option"
  hh_method :: "string option"
  hh_host :: "string option"
  hh_is_upgrader :: bool
  hh_is_dir :: bool
  hh_cb :: "nat option"

text \<open>The loop that chops trailing \<open>/\<close> off the stored path (lines 875 to 883).\<close>

function chop_trailing :: "string \<Rightarrow> string" where
  "chop_trailing p =
     (if 0 < length p then
        (if p ! (length p - 1) \<noteq> CHR ''/'' then p
         else chop_trailing (take (length p - 1) p))
      else p)"
  by pat_completeness auto
termination
  by (relation "measure length") auto

declare chop_trailing.simps [simp del]

text \<open>
  The collision scan over the registered handlers (lines 890 to 910): \<open>True\<close> when the
  loop leaves through the return of \<^verbatim>\<open>NNG_EADDRINUSE\<close>.
\<close>

fun add_collides :: "http_handler list \<Rightarrow> http_handler \<Rightarrow> bool" where
  "add_collides [] h = False"
| "add_collides (h2 # hs) h =
     (if (case (h_host h2, h_host h) of
            (Some host2, Some host) \<Rightarrow> nni_strcasecmp host2 host \<noteq> 0
          | _ \<Rightarrow> False)
      then add_collides hs h
      else if strcmp (h_method h2) (h_method h) \<noteq> 0 then add_collides hs h
      else
        (let l1 = length (h_path h);
             l2 = length (h_path h2);
             l2 = (if l1 < l2 then l1 else l2)
         in if strncmp (h_path h2) (h_path h) l2 = 0 then True
            else add_collides hs h))"

datatype aio_slot = RxAio | TxAio | TxDataAio | CbAio

text \<open>
  Modelled from the spec: the request and response objects belong to the message codec
  (\<^verbatim>\<open>nni_http_req\<close>, \<^verbatim>\<open>nni_http_res\<close>), which is outside this file. A request carries a
  version (possibly absent), a method, a URI and headers; a response a status, headers
  and a body. Header names are compared without regard to letter case, and setting a
  header replaces the value stored under that name.
\<close>

record nni_http_req =
  req_version :: "string option"
  req_method :: string
  req_uri :: string
  req_headers :: "(string \<times> string) list"

record nni_http_res =
  res_status :: nat
  res_headers :: "(string \<times> string) list"
  res_data :: "char list"

fun get_header :: "(string \<times> string) list \<Rightarrow> string \<Rightarrow> string option" where
  "get_header [] key = None"
| "get_header ((k, v) # hs) key =
     (if nni_strcasecmp k key = 0 then Some v else get_header hs key)"

fun set_header :: "(string \<times> string) list \<Rightarrow> string \<Rightarrow> string \<Rightarrow> (string \<times> string) list" where
  "set_header [] key val = [(key, val)]"
| "set_header ((k, v) # hs) key val =
     (if nni_strcasecmp k key = 0 then (k, val) # hs else (k, v) # set_header hs key val)"

definition nni_http_req_get_version :: "nni_http_req \<Rightarrow> string option" where
  "nni_http_req_get_version req = req_version req"

definition nni_http_req_get_method :: "nni_http_req \<Rightarrow> string" where
  "nni_http_req_get_method req = req_method req"

definition nni_http_req_get_uri :: "nni_http_req \<Rightarrow> string" where
  "nni_http_req_get_uri req = req_uri req"

definition nni_http_req_get_header :: "nni_http_req \<Rightarrow> string \<Rightarrow> string option" where
  "nni_http_req_get_header req key = get_header (req_headers req) key"

definition nni_http_res_get_header :: "nni_http_res \<Rightarrow> string \<Rightarrow> string option" where
  "nni_http_res_get_header res key = get_header (res_headers res) key"

definition nni_http_res_set_header :: "nni_http_res \<Rightarrow> string \<Rightarrow> string \<Rightarrow> nni_http_res" where
  "nni_http_res_set_header res key val = res\<lparr>res_headers := set_header (res_headers res) key val\<rparr>"

text \<open>
  Modelled from the spec: the status codes are macros of \<^verbatim>\<open>http.h\<close>; the specification
  gives bad request as 400, not found as 404, method not allowed as 405 and version not
  supported as 505.
\<close>

definition NNI_HTTP_STATUS_BAD_REQUEST :: nat where
  "NNI_HTTP_STATUS_BAD_REQUEST = 400"

definition NNI_HTTP_STATUS_NOT_FOUND :: nat where
  "NNI_HTTP_STATUS_NOT_FOUND = 404"

definition NNI_HTTP_STATUS_METHOD_NOT_ALLOWED :: nat where
  "NNI_HTTP_STATUS_METHOD_NOT_ALLOWED = 405"

definition NNI_HTTP_STATUS_HTTP_VERSION_NOT_SUPP :: nat where
  "NNI_HTTP_STATUS_HTTP_VERSION_NOT_SUPP = 505"

text \<open>
  What the allocator and the codec answer during one call is the record \<open>env\<close>:
  \<open>env_alloc_ok\<close> says whether the allocations the function makes itself
  (\<^verbatim>\<open>NNI_ALLOC_STRUCT\<close>, \<^verbatim>\<open>nni_strdup\<close>, \<^verbatim>\<open>nni_alloc\<close>) all succeed; \<open>env_init_error\<close> is the
  codec's constructor \<^verbatim>\<open>nni_http_res_init_error\<close>, which is outside this file, with \<open>None\<close>
  for a failure; and \<open>env_set_header_ok\<close> says whether \<^verbatim>\<open>nni_http_res_set_header\<close> returns
  0 (when it does not, the response is left as it was).
\<close>

record env =
  env_alloc_ok :: bool
  env_init_error :: "nat \<Rightarrow> nni_http_res option"
  env_set_header_ok :: bool

section \<open>Server sessions\<close>

text \<open>
  A session. The four asynchronous slots are not state of their own: a completion
  handler is a function of the slot's result, and what it posts or cancels is returned as
  a list of operations, in program order. \<^verbatim>\<open>NNI_ASSERT\<close> is a debugging check and has no
  effect here.
\<close>

record http_sconn =
  sc_http :: "nat option"
  sc_req :: "nni_http_req option"
  sc_res :: "nni_http_res option"
  sc_close :: bool
  sc_closed :: bool
  sc_finished :: bool

datatype sconn_op =
    AioCancel aio_slot
  | HttpClose
  | Reap
  | ResFini
  | ReqReset
  | ReadReq
  | WriteRes nni_http_res
  | WriteFull "char list"
  | CallHandler http_handler
  | HandlerFini http_handler

definition http_sconn_close_locked :: "http_sconn \<Rightarrow> http_sconn \<times> sconn_op list" where
  "http_sconn_close_locked sc =
     (if sc_closed sc then (sc, [])
      else
        (sc\<lparr>sc_closed := True\<rparr>,
         [AioCancel RxAio, AioCancel TxAio, AioCancel TxDataAio, AioCancel CbAio]
         @ (if sc_http sc \<noteq> None then [HttpClose] else [])
         @ [Reap]))"

definition http_sconn_close :: "http_sconn \<Rightarrow> http_sconn \<times> sconn_op list" where
  "http_sconn_close sc = http_sconn_close_locked sc"

text \<open>
  \<^verbatim>\<open>http_sconn_error\<close>. When the close header cannot be set the source closes the
  session and goes on to post the write.
\<close>

definition http_sconn_error :: "env \<Rightarrow> http_sconn \<Rightarrow> nat \<Rightarrow> http_sconn \<times> sconn_op list" where
  "http_sconn_error env sc err =
     (case env_init_error env err of
        None \<Rightarrow> http_sconn_close sc
      | Some res \<Rightarrow>
          if sc_close sc then
            (if env_set_header_ok env then
               (let res = nni_http_res_set_header res ''Connection'' ''close''
                in (sc\<lparr>sc_res := Some res\<rparr>, [WriteRes res]))
             else
               (let (sc', ops) = http_sconn_close sc
                in (sc'\<lparr>sc_res := Some res\<rparr>, ops @ [WriteRes res])))
          else (sc\<lparr>sc_res := Some res\<rparr>, [WriteRes res]))"

text \<open>
  The handler lookup of \<^verbatim>\<open>http_sconn_rxdone\<close> (lines 381 to 443). \<open>char_at s i\<close> is the
  byte \<open>s[i]\<close> of a C string for \<open>i\<close> up to its length, the terminator included. The three
  tests of the loop body are \<open>True\<close> when the body does not \<^verbatim>\<open>continue\<close>: the host test
  (lines 383 to 410), the path test (lines 414 to 430) and the method test (lines 433 to
  441). The loop returns the position of the handler it stopped at and the flag
  \<open>badmeth\<close>.
\<close>

definition char_at :: "string \<Rightarrow> nat \<Rightarrow> char" where
  "char_at s i = (if i < length s then s ! i else NUL)"

definition rxdone_host_match :: "http_handler \<Rightarrow> nni_http_req \<Rightarrow> bool" where
  "rxdone_host_match h req =
     (case h_host h of
        None \<Rightarrow> True
      | Some host \<Rightarrow>
          (case nni_http_req_get_header req ''Host'' of
             None \<Rightarrow> False
           | Some val \<Rightarrow>
               (let len = length host;
                    len = (if 0 < len \<and> host ! (len - 1) = CHR ''.'' then len - 1 else len)
                in if nni_strncasecmp val host len \<noteq> 0 then False
                   else if char_at val len \<noteq> NUL \<and> char_at val len \<noteq> CHR '':'' \<and>
                           (char_at val len \<noteq> CHR ''.'' \<or> char_at val (len + 1) \<noteq> NUL)
                     then False
                   else True)))"

definition rxdone_path_match :: "http_handler \<Rightarrow> string \<Rightarrow> bool" where
  "rxdone_path_match h path =
     (let len = length (h_path h)
      in if strncmp path (h_path h) len \<noteq> 0 then False
         else if char_at path len = NUL then True
         else if char_at path len = CHR ''/'' then
           (if char_at path (len + 1) \<noteq> NUL \<and> \<not> h_is_dir h then False else True)
         else False)"

definition rxdone_method_match :: "http_handler \<Rightarrow> nni_http_req \<Rightarrow> bool" where
  "rxdone_method_match h req =
     (let val = nni_http_req_get_method req
      in if strcmp val (h_method h) = 0 then True
         else if strcmp val ''HEAD'' = 0 \<and> strcmp (h_method h) ''GET'' = 0 then True
         else False)"

fun rxdone_lookup ::
  "http_handler list \<Rightarrow> nat \<Rightarrow> nni_http_req \<Rightarrow> string \<Rightarrow> bool \<Rightarrow> nat option \<times> bool" where
  "rxdone_lookup [] i req path badmeth = (None, badmeth)"
| "rxdone_lookup (h # hs) i req path badmeth =
     (if \<not> rxdone_host_match h req then rxdone_lookup hs (Suc i) req path badmeth
      else if \<not> rxdone_path_match h path then rxdone_lookup hs (Suc i) req path badmeth
      else if rxdone_method_match h req then (Some i, badmeth)
      else rxdone_lookup hs (Suc i) req path True)"

text \<open>
  \<^verbatim>\<open>http_sconn_rxdone\<close>. \<open>rv\<close> is the result of the receive slot and \<open>start_rv\<close> the
  result of \<^verbatim>\<open>nni_aio_start\<close> on the callback slot. The function works on the handler
  list of the session's server, under the server's lock, and returns it with the
  reference count of the chosen handler raised.
\<close>

definition http_sconn_rxdone ::
  "env \<Rightarrow> int \<Rightarrow> int \<Rightarrow> http_handler list \<Rightarrow> http_sconn
   \<Rightarrow> cerr + (http_handler list \<times> http_sconn \<times> sconn_op list)" where
  "http_sconn_rxdone env rv start_rv handlers sc =
     (if rv \<noteq> 0 then
        (let (sc', ops) = http_sconn_close sc in Inr (handlers, sc', ops))
      else
        (case sc_req sc of
           None \<Rightarrow> Inl NullPointer
         | Some req \<Rightarrow>
             (case nni_http_req_get_version req of
                None \<Rightarrow>
                  (let (sc', ops) =
                         http_sconn_error env (sc\<lparr>sc_close := True\<rparr>) NNI_HTTP_STATUS_BAD_REQUEST
                   in Inr (handlers, sc', ops))
              | Some val \<Rightarrow>
                  if strncmp val ''HTTP/1.'' 7 \<noteq> 0 then
                    (let (sc', ops) =
                           http_sconn_error env (sc\<lparr>sc_close := True\<rparr>)
                             NNI_HTTP_STATUS_HTTP_VERSION_NOT_SUPP
                     in Inr (handlers, sc', ops))
                  else
                    (let sc1 = (if strcmp val ''HTTP/1.1'' \<noteq> 0 then sc\<lparr>sc_close := True\<rparr> else sc);
                         sc2 = (case nni_http_req_get_header req ''Connection'' of
                                  None \<Rightarrow> sc1
                                | Some val \<Rightarrow>
                                    if nni_strcasestr val ''close'' \<noteq> None
                                    then sc1\<lparr>sc_close := True\<rparr> else sc1)
                     in if \<not> env_alloc_ok env then
                          (let (sc', ops) = http_sconn_close sc2 in Inr (handlers, sc', ops))
                        else
                        case canonify_uri (nni_http_req_get_uri req) of
                          Inl e \<Rightarrow> Inl e
                        | Inr path \<Rightarrow>
                            (case rxdone_lookup handlers 0 req path False of
                               (None, badmeth) \<Rightarrow>
                                 (let (sc', ops) =
                                        (if badmeth
                                         then http_sconn_error env sc2
                                                NNI_HTTP_STATUS_METHOD_NOT_ALLOWED
                                         else http_sconn_error env sc2
                                                NNI_HTTP_STATUS_NOT_FOUND)
                                  in Inr (handlers, sc', ops))
                             | (Some i, badmeth) \<Rightarrow>
                                 if start_rv = 0 then
                                   (let h = (handlers ! i)\<lparr>h_refcnt := h_refcnt (handlers ! i) + 1\<rparr>
                                    in Inr (handlers[i := h], sc2, [CallHandler h]))
                                 else Inr (handlers, sc2, []))))))"

text \<open>
  \<^verbatim>\<open>http_sconn_txdone\<close> and \<^verbatim>\<open>http_sconn_txdatdone\<close>: the completions of the header
  write and of the body write.
\<close>

definition http_sconn_txdone :: "int \<Rightarrow> http_sconn \<Rightarrow> cerr + (http_sconn \<times> sconn_op list)" where
  "http_sconn_txdone rv sc =
     (if rv \<noteq> 0 then Inr (http_sconn_close sc)
      else
        (case sc_req sc of
           None \<Rightarrow> Inl NullPointer
         | Some req \<Rightarrow>
             (case (if strcmp (nni_http_req_get_method req) ''HEAD'' = 0 then Inr []
                    else (case sc_res sc of
                            None \<Rightarrow> Inl NullPointer
                          | Some res \<Rightarrow> Inr (res_data res))) of
                Inl e \<Rightarrow> Inl e
              | Inr data \<Rightarrow>
                  if length data \<noteq> 0 then Inr (sc, [WriteFull data])
                  else if sc_close sc then Inr (http_sconn_close sc)
                  else
                    Inr (sc\<lparr>sc_res := None\<rparr>,
                         (if sc_res sc \<noteq> None then [ResFini] else []) @ [ReqReset, ReadReq]))))"

definition http_sconn_txdatdone :: "int \<Rightarrow> http_sconn \<Rightarrow> http_sconn \<times> sconn_op list" where
  "http_sconn_txdatdone rv sc =
     (if rv \<noteq> 0 then http_sconn_close sc
      else
        (let fini = (if sc_res sc \<noteq> None then [ResFini] else []);
             sc1 = sc\<lparr>sc_res := None\<rparr>
         in if sc_close sc1 then
              (let (sc', ops) = http_sconn_close sc1 in (sc', fini @ ops))
            else (sc1, fini @ [ReqReset, ReadReq])))"

text \<open>
  \<^verbatim>\<open>http_sconn_cbdone\<close>. \<open>rv\<close> is the result of the callback slot, \<open>h\<close> the handler
  record the slot carries and \<open>res\<close> the response the callback produced, if any. The
  handler is returned with its reference dropped. The source does not look at the result
  of setting the close header.
\<close>

definition http_sconn_cbdone ::
  "env \<Rightarrow> int \<Rightarrow> http_handler \<Rightarrow> nni_http_res option \<Rightarrow> http_sconn
   \<Rightarrow> http_handler \<times> http_sconn \<times> sconn_op list" where
  "http_sconn_cbdone env rv h res sc =
     (if rv \<noteq> 0 then
        (let (sc', ops) = http_sconn_close sc in (h, sc', ops))
      else
        (let upgrader = h_is_upgrader h;
             h' = h\<lparr>h_refcnt := h_refcnt h - 1\<rparr>;
             fini = (if h_refcnt h' = 0 then [HandlerFini h'] else [])
         in if upgrader \<and> res = None then
              (let (sc', ops) =
                     http_sconn_close (sc\<lparr>sc_http := None, sc_req := None, sc_res := None\<rparr>)
               in (h', sc', fini @ ops))
            else
              (case res of
                 Some r \<Rightarrow>
                   (let sc1 = (case nni_http_res_get_header r ''Connection'' of
                                 None \<Rightarrow> sc
                               | Some val \<Rightarrow>
                                   if strstr val ''close'' \<noteq> None
                                   then sc\<lparr>sc_close := True\<rparr> else sc);
                        r1 = (if sc_close sc1 \<and> env_set_header_ok env
                              then nni_http_res_set_header r ''Connection'' ''close'' else r)
                    in (h', sc1\<lparr>sc_res := Some r1\<rparr>, fini @ [WriteRes r1]))
               | None \<Rightarrow>
                   if sc_close sc then
                     (let (sc', ops) = http_sconn_close sc in (h', sc', fini @ ops))
                   else (h', sc, fini @ [ReqReset, ReadReq]))))"

section \<open>Server instances\<close>

text \<open>
  A server instance, with the fields the modelled functions touch: the two counters, the
  handler registry and the live set in list order, the closed flag, the TLS configuration
  and the listener endpoint \<open>s_tep\<close>. The outcome of the transport calls made by a start
  is the record \<open>tcp_env\<close>: the results of creating and of binding the endpoint, and the
  endpoint created.
\<close>

record nni_http_server =
  s_refcnt :: cint
  s_starts :: cint
  s_handlers :: "http_handler list"
  s_conns :: "http_sconn list"
  s_closed :: bool
  s_tls :: "nat option"
  s_tep :: "nat option"

record tcp_env =
  ep_init_rv :: int
  ep_new :: nat
  ep_listen_rv :: int

datatype server_op = EpInit | EpListen | EpAccept | EpFini | EpClose | CvWake | Conn nat sconn_op

definition http_server_start ::
  "tcp_env \<Rightarrow> nni_http_server \<Rightarrow> nni_http_server \<times> server_op list \<times> int" where
  "http_server_start env s =
     (if ep_init_rv env \<noteq> 0 then (s, [EpInit], ep_init_rv env)
      else if ep_listen_rv env \<noteq> 0 then
        (s\<lparr>s_tep := None\<rparr>, [EpInit, EpListen, EpFini], ep_listen_rv env)
      else (s\<lparr>s_tep := Some (ep_new env)\<rparr>, [EpInit, EpListen, EpAccept], 0))"

definition nni_http_server_start ::
  "tcp_env \<Rightarrow> nni_http_server \<Rightarrow> nni_http_server \<times> server_op list \<times> int" where
  "nni_http_server_start env s =
     (let (s1, ops, rv) = (if s_starts s = 0 then http_server_start env s else (s, [], 0))
      in if rv = 0 then (s1\<lparr>s_starts := s_starts s1 + 1\<rparr>, ops, rv) else (s1, ops, rv))"

text \<open>The loop of \<^verbatim>\<open>http_server_stop\<close> over the live set, from position \<open>i\<close> on.\<close>

fun stop_conns :: "http_sconn list \<Rightarrow> nat \<Rightarrow> http_sconn list \<times> server_op list" where
  "stop_conns [] i = ([], [])"
| "stop_conns (sc # scs) i =
     (let (sc', ops) = http_sconn_close_locked sc;
          (scs', ops') = stop_conns scs (Suc i)
      in (sc' # scs', map (Conn i) ops @ ops'))"

definition http_server_stop :: "nni_http_server \<Rightarrow> nni_http_server \<times> server_op list" where
  "http_server_stop s =
     (if s_closed s then (s, [])
      else
        (let (conns, ops) = stop_conns (s_conns s) 0
         in (s\<lparr>s_closed := True, s_conns := conns\<rparr>,
             (if s_tep s \<noteq> None then [EpClose] else []) @ ops @ [CvWake])))"

definition nni_http_server_stop :: "nni_http_server \<Rightarrow> nni_http_server \<times> server_op list" where
  "nni_http_server_stop s =
     (let s1 = s\<lparr>s_starts := s_starts s - 1\<rparr>
      in if s_starts s1 = 0 then http_server_stop s1 else (s1, []))"

text \<open>
  \<^verbatim>\<open>http_server_add_handler\<close>: the argument check, the allocation of the record and of
  the copies of host, method and path, the chopping of trailing slashes, the collision
  scan and the append. The result is the server with the new record at the end of the
  registry, and that record.
\<close>

definition http_server_add_handler ::
  "env \<Rightarrow> nni_http_server \<Rightarrow> nni_http_handler \<Rightarrow> nat \<Rightarrow> nat option
   \<Rightarrow> nng_err + (nni_http_server \<times> http_handler)" where
  "http_server_add_handler env s hh arg freeit =
     (case hh_method hh of
        None \<Rightarrow> Inl NNG_EINVAL
      | Some method \<Rightarrow>
          (case hh_path hh of
             None \<Rightarrow> Inl NNG_EINVAL
           | Some path \<Rightarrow>
               (case hh_cb hh of
                  None \<Rightarrow> Inl NNG_EINVAL
                | Some cb \<Rightarrow>
                    if strcmp method ''HEAD'' = 0 then Inl NNG_EINVAL
                    else if \<not> env_alloc_ok env then Inl NNG_ENOMEM
                    else
                      (let h = \<lparr>h_arg = arg, h_path = chop_trailing path, h_method = method,
                                h_host = hh_host hh, h_is_upgrader = hh_is_upgrader hh,
                                h_is_dir = hh_is_dir hh, h_refcnt = 0, h_cb = cb,
                                h_free = freeit\<rparr>
                       in if add_collides (s_handlers s) h then Inl NNG_EADDRINUSE
                          else
                            (let h' = h\<lparr>h_refcnt := 1\<rparr>
                             in Inr (s\<lparr>s_handlers := s_handlers s @ [h']\<rparr>, h'))))))"

section \<open>Predicates of the specification\<close>

text \<open>
  The words of the specification for the collision rule of registration, to be compared
  with the scan in the code: two hosts are compatible when they match without regard to
  letter case or when one of them is absent, and two paths overlap when their first \<open>L\<close>
  bytes are equal, \<open>L\<close> being the smaller of the two lengths.
\<close>

fun hosts_compatible :: "string option \<Rightarrow> string option \<Rightarrow> bool" where
  "hosts_compatible (Some a) (Some b) = (map tolower a = map tolower b)"
| "hosts_compatible _ _ = True"

definition paths_overlap :: "string \<Rightarrow> string \<Rightarrow> bool" where
  "paths_overlap p1 p2 =
     (let L = min (length p1) (length p2) in take L p1 = take L p2)"

text \<open>
  Two abbreviations of parts of \<^verbatim>\<open>http_sconn_rxdone\<close>, for stating what it does:
  \<open>req_wants_close\<close> is the test of the request's \<^verbatim>\<open>Connection\<close> header (lines 358 to
  369), and \<open>lookup_outcome\<close> is what the function posts after the lookup (lines 446 to
  468): the call of the handler found, or the error response, which carries the close
  header when the close flag \<open>cl\<close> is set.
\<close>

definition req_wants_close :: "nni_http_req \<Rightarrow> bool" where
  "req_wants_close req =
     (case nni_http_req_get_header req ''Connection'' of
        None \<Rightarrow> False
      | Some val \<Rightarrow> nni_strcasestr val ''close'' \<noteq> None)"

definition lookup_outcome ::
  "(nat \<Rightarrow> nni_http_res) \<Rightarrow> int \<Rightarrow> http_handler list \<Rightarrow> nni_http_req \<Rightarrow> string \<Rightarrow> bool
   \<Rightarrow> sconn_op list" where
  "lookup_outcome ie start_rv hs req path cl =
     (case rxdone_lookup hs 0 req path False of
        (None, badmeth) \<Rightarrow>
          (let r = ie (if badmeth then NNI_HTTP_STATUS_METHOD_NOT_ALLOWED
                       else NNI_HTTP_STATUS_NOT_FOUND)
           in [WriteRes (if cl then nni_http_res_set_header r ''Connection'' ''close'' else r)])
      | (Some i, badmeth) \<Rightarrow>
          if start_rv = 0
          then [CallHandler ((hs ! i)\<lparr>h_refcnt := h_refcnt (hs ! i) + 1\<rparr>)]
          else [])"

section \<open>Properties of the C string routines\<close>

lemma isxdigit_NUL [simp]: "\<not> isxdigit NUL"
  by (simp add: isxdigit_def NUL_def)

lemma strchr_scan_absent:
  "c \<notin> set p \<Longrightarrow> NUL \<notin> set p \<Longrightarrow> c \<noteq> NUL \<Longrightarrow> strchr_scan (p @ [NUL]) k c = Inr None"
  by (induction p arbitrary: k) auto

lemma takeWhile_no_NUL:
  "NUL \<notin> set p \<Longrightarrow> takeWhile (\<lambda>c. c \<noteq> NUL) (p @ NUL # r) = p"
  by (induction p) auto

lemma cstr_whole: "NUL \<notin> set p \<Longrightarrow> cstr (p @ [NUL]) 0 = p"
  by (simp add: cstr_def takeWhile_no_NUL)

lemma strcmp_eq_0: "strcmp a b = 0 \<longleftrightarrow> a = b"
  by (induction a b rule: strcmp.induct) auto

lemma strncmp_eq_0: "strncmp a b n = 0 \<longleftrightarrow> take n a = take n b"
  by (induction a b n rule: strncmp.induct) auto

lemma nni_strcasecmp_eq_0: "nni_strcasecmp a b = 0 \<longleftrightarrow> map tolower a = map tolower b"
  by (simp add: nni_strcasecmp_def strcmp_eq_0)

section \<open>Properties of the URI canonifier\<close>

text \<open>
  C1. The claim: every \<open>%HH\<close> escape with two hexadecimal digits becomes exactly one output
  byte and consumes exactly its three characters. The code does not do this: after the
  decoded byte is stored and the read offset has moved past the escape, control runs on
  into the statements for a malformed escape, which store the byte a second time and skip
  one more input character. On the request URI \<open>/a%20bc\<close> the path handed to the lookup is
  \<open>/a\<close>, two spaces, \<open>c\<close>: the escape produced two bytes and the \<open>b\<close> after it is lost.
  When the escape ends the URI, as in \<open>/a%41\<close>, the extra step moves the read offset
  over the terminator and the next read is outside the allocation.
\<close>

theorem canonify_escape_emits_twice:
  "canonify_uri ''/a%20bc'' = Inr ''/a  c'' \<and> canonify_uri ''/a%41'' = Inl Overrun"
  by code_simp

text \<open>
  The canonifier returns a string without \<open>\\0\<close>: the result is read up to the first
  terminator of the buffer.
\<close>

lemma canonify_uri_no_NUL: "canonify_uri u = Inr p \<Longrightarrow> NUL \<notin> set p"
  by (auto simp: canonify_uri_def http_uri_canonify_def cstr_def NUL_def Let_def
      split: sum.splits option.splits if_splits prod.splits dest: set_takeWhileD)

text \<open>
  On a buffer whose remaining input holds no well-formed escape the loop copies every
  byte onto itself and stores the terminator where it already is.
\<close>

lemma canonify_loop_no_escape:
  "NUL \<notin> set suf \<Longrightarrow> \<not> has_escape suf \<Longrightarrow>
   canonify_loop (pre @ suf @ [NUL]) (length pre) (length pre) = Inr (pre @ suf @ [NUL])"
proof (induction suf arbitrary: pre)
  case Nil
  show ?case by (subst canonify_loop.simps) simp
next
  case (Cons a suf)
  define m where "m = pre @ (a # suf) @ [NUL]"
  have a: "a \<noteq> NUL" and nn: "NUL \<notin> set suf" and ne: "\<not> has_escape suf"
    using Cons.prems by auto
  have m0: "m ! length pre = a" and len: "length pre + 1 < length m"
    by (simp_all add: m_def nth_append)
  have ih: "canonify_loop ((pre @ [a]) @ suf @ [NUL]) (length (pre @ [a])) (length (pre @ [a]))
            = Inr ((pre @ [a]) @ suf @ [NUL])"
    using Cons.IH [OF nn ne] .
  have upd: "m[length pre := a] = m"
    by (simp add: m_def list_update_append)
  have copy: "canonify_loop (m[length pre := a]) (length pre + 1) (length pre + 1) = Inr m"
    using ih by (simp add: upd) (simp add: m_def)
  have nohex: "\<not> isxdigit (m ! (length pre + 2)) \<and> length pre + 2 < length m"
    if pc: "a = CHR ''%''" and hx: "isxdigit (m ! (length pre + 1))"
  proof (cases suf)
    case Nil
    then show ?thesis using hx by (simp add: m_def nth_append)
  next
    case (Cons h1 s1)
    then show ?thesis using pc hx Cons.prems
      by (cases s1) (simp_all add: m_def nth_append)
  qed
  show ?case
    unfolding m_def [symmetric]
  proof (cases "a = CHR ''%'' \<and> isxdigit (m ! (length pre + 1))")
    case True
    with nohex have "\<not> isxdigit (m ! (length pre + 2))" "length pre + 2 < length m"
      by auto
    then show "canonify_loop m (length pre) (length pre) = Inr m"
      using True a copy m0 len by (subst canonify_loop.simps) simp
  next
    case False
    then show "canonify_loop m (length pre) (length pre) = Inr m"
      using a copy m0 len by (subst canonify_loop.simps) auto
  qed
qed

lemma canonify_uri_fixed:
  assumes "NUL \<notin> set p" "CHR ''?'' \<notin> set p" "\<not> has_escape p" "\<not> has_scheme p"
  shows "canonify_uri p = Inr p"
proof -
  have "CHR ''?'' \<noteq> NUL"
    by (simp add: NUL_def)
  then have q: "strchr (p @ [NUL]) 0 (CHR ''?'') = Inr None"
    using assms by (simp add: strchr_def strchr_scan_absent)
  have l: "canonify_loop (p @ [NUL]) 0 0 = Inr (p @ [NUL])"
    using canonify_loop_no_escape [of p "[]"] assms by simp
  show ?thesis
    using assms(1,4) q l
    by (simp add: canonify_uri_def http_uri_canonify_def cstr_whole has_scheme_def)
qed

text \<open>
  C8. The claim: canonifying the output of the canonifier yields that output unchanged.
  It fails whenever the first pass produces a byte that the second pass interprets:
  \<open>/a%3Fb\<close> canonifies to \<open>/a??\<close>, whose second canonification cuts the string at the
  first \<open>?\<close> and yields \<open>/a\<close>. In the same way an output can hold a fresh escape
  (\<open>%%41zz\<close>, from \<open>%25x41zz\<close>) or begin with a scheme (\<open>http://x/y\<close>, from
  \<open>h%74tp://x/y\<close>), and the second pass decodes or strips it.
\<close>

theorem canonify_not_idempotent:
  "canonify_uri ''/a%3Fb'' = Inr ''/a??'' \<and> canonify_uri ''/a??'' = Inr ''/a'' \<and>
   canonify_uri ''%25x41zz'' = Inr ''%%41zz'' \<and> canonify_uri ''%%41zz'' = Inr ''%AAz'' \<and>
   canonify_uri ''h%74tp://x/y'' = Inr ''http://x/y'' \<and> canonify_uri ''http://x/y'' = Inr ''/y''"
  by code_simp

text \<open>
  C8 as amended: whenever the output of the canonifier holds no \<open>?\<close>, no \<open>%\<close> followed by
  two hexadecimal digits, and does not begin with \<open>http://\<close> or \<open>https://\<close> in any letter
  case, canonifying it again returns it unchanged.
\<close>

theorem canonify_idempotent_on_plain_output:
  assumes "canonify_uri u = Inr p"
    and "CHR ''?'' \<notin> set p" and "\<not> has_escape p" and "\<not> has_scheme p"
  shows "canonify_uri p = Inr p"
  using assms canonify_uri_no_NUL [of u p] by (intro canonify_uri_fixed) auto

theorem canonify_idempotent_on_plain_output_witness:
  "canonify_uri ''http://host/x%zz?q=1'' = Inr ''/x%zz'' \<and> canonify_uri ''/x%zz'' = Inr ''/x%zz''"
proof -
  have a: "canonify_uri ''http://host/x%zz?q=1'' = Inr ''/x%zz''"
    by code_simp
  have b: "CHR ''?'' \<notin> set ''/x%zz''" by simp
  have c: "\<not> has_escape ''/x%zz''" by code_simp
  have d: "\<not> has_scheme ''/x%zz''" by code_simp
  show ?thesis
    using a canonify_idempotent_on_plain_output [OF a b c d] by simp
qed

section \<open>Properties of the registry\<close>

lemma add_collides_iff:
  "add_collides hs h \<longleftrightarrow>
     (\<exists>h2 \<in> set hs. hosts_compatible (h_host h2) (h_host h) \<and> h_method h2 = h_method h \<and>
        paths_overlap (h_path h2) (h_path h))"
proof (induction hs)
  case Nil
  show ?case by simp
next
  case (Cons h2 hs)
  have host: "(case (h_host h2, h_host h) of
                 (Some host2, Some host) \<Rightarrow> nni_strcasecmp host2 host \<noteq> 0
               | _ \<Rightarrow> False) \<longleftrightarrow> \<not> hosts_compatible (h_host h2) (h_host h)"
    by (cases "h_host h2"; cases "h_host h") (simp_all add: nni_strcasecmp_eq_0)
  have path: "(let l1 = length (h_path h); l2 = length (h_path h2);
                   l2 = (if l1 < l2 then l1 else l2)
               in strncmp (h_path h2) (h_path h) l2 = 0) \<longleftrightarrow> paths_overlap (h_path h2) (h_path h)"
    by (auto simp: paths_overlap_def Let_def strncmp_eq_0 min_def)
  show ?case
    using Cons.IH host path
    by (auto simp: Let_def strcmp_eq_0 simp del: hosts_compatible.simps)
qed

lemma chop_trailing_rev: "chop_trailing p = rev (dropWhile (\<lambda>c. c = CHR ''/'') (rev p))"
proof (induction p rule: rev_induct)
  case Nil
  show ?case by (subst chop_trailing.simps) simp
next
  case (snoc x xs)
  show ?case
    using snoc by (subst chop_trailing.simps) (simp add: nth_append)
qed

lemma paths_overlap_Nil [simp]: "paths_overlap [] p"
  by (simp add: paths_overlap_def)

text \<open>
  C3. The claim: for every registry and every new handler, add answers address-in-use
  exactly when a registered handler has the same method, a compatible host and an
  overlapping path. A new handler that fails the argument check is answered
  invalid-argument before the registry is looked at, also when such a registered handler
  exists: here \<open>GET /a\<close> is registered and a second \<open>GET /a\<close> without a callback is offered.
\<close>

theorem add_handler_invalid_argument_first:
  "http_server_add_handler
     \<lparr>env_alloc_ok = True, env_init_error = (\<lambda>e. None), env_set_header_ok = True\<rparr>
     \<lparr>s_refcnt = 1, s_starts = 0,
      s_handlers = [\<lparr>h_arg = 0, h_path = ''/a'', h_method = ''GET'', h_host = None,
                     h_is_upgrader = False, h_is_dir = False, h_refcnt = 1, h_cb = 7,
                     h_free = None\<rparr>],
      s_conns = [], s_closed = False, s_tls = None, s_tep = None\<rparr>
     \<lparr>hh_path = Some ''/a'', hh_method = Some ''GET'', hh_host = None,
      hh_is_upgrader = False, hh_is_dir = False, hh_cb = None\<rparr> 0 None
   = Inl NNG_EINVAL \<and>
   strcmp ''GET'' ''GET'' = 0 \<and> hosts_compatible None None \<and>
   paths_overlap ''/a'' (chop_trailing ''/a'')"
  by (simp add: http_server_add_handler_def chop_trailing_rev paths_overlap_def)

text \<open>
  C3 as amended: add answers address-in-use exactly when the new handler passes the
  argument check (method, path and callback present, method other than \<open>HEAD\<close>), its
  record can be allocated, and some registered handler has a string-equal method, a compatible host and a path that agrees
  with the new, slash-trimmed path on the first \<open>L\<close> bytes, \<open>L\<close> the smaller of the two
  lengths. In particular \<open>/ab\<close> offered with a callback after \<open>/abc\<close>, same method and no
  hosts, is answered address-in-use.
\<close>

theorem add_handler_address_in_use:
  "(http_server_add_handler env s hh arg freeit = Inl NNG_EADDRINUSE \<longleftrightarrow>
      (\<exists>method path cb.
         hh_method hh = Some method \<and> hh_path hh = Some path \<and> hh_cb hh = Some cb \<and>
         method \<noteq> ''HEAD'' \<and> env_alloc_ok env \<and>
         (\<exists>h2 \<in> set (s_handlers s).
            h_method h2 = method \<and> hosts_compatible (h_host h2) (hh_host hh) \<and>
            paths_overlap (h_path h2) (chop_trailing path)))) \<and>
   (h2 \<in> set (s_handlers s) \<and> h_path h2 = ''/abc'' \<and> h_host h2 = None \<and>
    h_method h2 \<noteq> ''HEAD'' \<and>
    hh_path hh = Some ''/ab'' \<and> hh_method hh = Some (h_method h2) \<and> hh_host hh = None \<and>
    hh_cb hh = Some cb \<and> env_alloc_ok env
    \<longrightarrow> http_server_add_handler env s hh arg freeit = Inl NNG_EADDRINUSE)"
proof -
  have iff: "http_server_add_handler env s hh arg freeit = Inl NNG_EADDRINUSE \<longleftrightarrow>
      (\<exists>method path cb.
         hh_method hh = Some method \<and> hh_path hh = Some path \<and> hh_cb hh = Some cb \<and>
         method \<noteq> ''HEAD'' \<and> env_alloc_ok env \<and>
         (\<exists>h2 \<in> set (s_handlers s).
            h_method h2 = method \<and> hosts_compatible (h_host h2) (hh_host hh) \<and>
            paths_overlap (h_path h2) (chop_trailing path)))"
    by (cases "hh_method hh"; cases "hh_path hh"; cases "hh_cb hh")
       (auto simp: http_server_add_handler_def add_collides_iff strcmp_eq_0 Let_def)
  have ab: "chop_trailing ''/ab'' = ''/ab''"
    by (simp add: chop_trailing_rev)
  have ov: "paths_overlap ''/abc'' ''/ab''"
    by (simp add: paths_overlap_def)
  show ?thesis
    unfolding iff using ab ov by auto
qed

theorem add_handler_address_in_use_witness:
  "http_server_add_handler
     \<lparr>env_alloc_ok = True, env_init_error = (\<lambda>e. None), env_set_header_ok = True\<rparr>
     \<lparr>s_refcnt = 1, s_starts = 0, s_handlers = [], s_conns = [], s_closed = False,
      s_tls = None, s_tep = None\<rparr>
     \<lparr>hh_path = Some ''/abc'', hh_method = Some ''GET'', hh_host = None,
      hh_is_upgrader = False, hh_is_dir = False, hh_cb = Some 7\<rparr> 0 None
   = Inr (\<lparr>s_refcnt = 1, s_starts = 0,
           s_handlers = [\<lparr>h_arg = 0, h_path = ''/abc'', h_method = ''GET'', h_host = None,
                          h_is_upgrader = False, h_is_dir = False, h_refcnt = 1, h_cb = 7,
                          h_free = None\<rparr>],
           s_conns = [], s_closed = False, s_tls = None, s_tep = None\<rparr>,
          \<lparr>h_arg = 0, h_path = ''/abc'', h_method = ''GET'', h_host = None,
           h_is_upgrader = False, h_is_dir = False, h_refcnt = 1, h_cb = 7, h_free = None\<rparr>) \<and>
   http_server_add_handler
     \<lparr>env_alloc_ok = True, env_init_error = (\<lambda>e. None), env_set_header_ok = True\<rparr>
     \<lparr>s_refcnt = 1, s_starts = 0,
      s_handlers = [\<lparr>h_arg = 0, h_path = ''/abc'', h_method = ''GET'', h_host = None,
                     h_is_upgrader = False, h_is_dir = False, h_refcnt = 1, h_cb = 7,
                     h_free = None\<rparr>],
      s_conns = [], s_closed = False, s_tls = None, s_tep = None\<rparr>
     \<lparr>hh_path = Some ''/ab'', hh_method = Some ''GET'', hh_host = None,
      hh_is_upgrader = False, hh_is_dir = False, hh_cb = Some 8\<rparr> 0 None
   = Inl NNG_EADDRINUSE"
proof -
  let ?e = "\<lparr>env_alloc_ok = True, env_init_error = (\<lambda>e. None), env_set_header_ok = True\<rparr>"
  let ?h = "\<lparr>h_arg = 0, h_path = ''/abc'', h_method = ''GET'', h_host = None,
             h_is_upgrader = False, h_is_dir = False, h_refcnt = 1, h_cb = 7, h_free = None\<rparr>"
  let ?s0 = "\<lparr>s_refcnt = 1, s_starts = 0, s_handlers = [], s_conns = [], s_closed = False,
              s_tls = None, s_tep = None\<rparr>"
  let ?s1 = "\<lparr>s_refcnt = 1, s_starts = 0, s_handlers = [?h], s_conns = [], s_closed = False,
              s_tls = None, s_tep = None\<rparr>"
  let ?hh1 = "\<lparr>hh_path = Some ''/abc'', hh_method = Some ''GET'', hh_host = None,
               hh_is_upgrader = False, hh_is_dir = False, hh_cb = Some 7\<rparr>"
  let ?hh2 = "\<lparr>hh_path = Some ''/ab'', hh_method = Some ''GET'', hh_host = None,
               hh_is_upgrader = False, hh_is_dir = False, hh_cb = Some 8\<rparr>"
  have first: "http_server_add_handler ?e ?s0 ?hh1 0 None = Inr (?s1, ?h)"
    by (simp add: http_server_add_handler_def chop_trailing_rev Let_def)
  have second: "http_server_add_handler ?e ?s1 ?hh2 0 None = Inl NNG_EADDRINUSE"
    using add_handler_address_in_use [where env = ?e and s = ?s1 and hh = ?hh2 and arg = 0
        and freeit = None and ?h2.0 = ?h and cb = 8]
    by simp
  show ?thesis
    using first second by simp
qed

text \<open>
  C10. The claim: once a path made of slashes only is registered, every later add with
  the same method and a compatible host is answered address-in-use. As for C3, an add
  that fails the argument check is answered invalid-argument instead: here the root
  handler for \<open>GET\<close> is registered and \<open>GET /x\<close> is offered without a callback.
\<close>

theorem add_handler_after_root_invalid_argument:
  "http_server_add_handler
     \<lparr>env_alloc_ok = True, env_init_error = (\<lambda>e. None), env_set_header_ok = True\<rparr>
     \<lparr>s_refcnt = 1, s_starts = 0,
      s_handlers = [\<lparr>h_arg = 0, h_path = [], h_method = ''GET'', h_host = None,
                     h_is_upgrader = False, h_is_dir = True, h_refcnt = 1, h_cb = 7,
                     h_free = None\<rparr>],
      s_conns = [], s_closed = False, s_tls = None, s_tep = None\<rparr>
     \<lparr>hh_path = Some ''/x'', hh_method = Some ''GET'', hh_host = None,
      hh_is_upgrader = False, hh_is_dir = False, hh_cb = None\<rparr> 0 None
   = Inl NNG_EINVAL \<and>
   strcmp ''GET'' ''GET'' = 0 \<and> hosts_compatible None None"
  by (simp add: http_server_add_handler_def)

text \<open>
  C10 as amended: a handler whose path consists of \<open>/\<close> only is stored, when its
  registration succeeds, with the empty path at the end of the registry; and while a
  handler with the empty path is registered, every add that passes the argument check
  (method other than \<open>HEAD\<close>, path and callback present) and the allocation of its
  record, with a string-equal method and a compatible host, is answered address-in-use,
  the compared prefix length being zero.
\<close>

theorem add_handler_root_blocks_method:
  "(hh_path hh = Some p \<and> set p \<subseteq> {CHR ''/''} \<and>
    http_server_add_handler env s hh arg freeit = Inr (s', h)
    \<longrightarrow> h_path h = [] \<and> s_handlers s' = s_handlers s @ [h]) \<and>
   (h2 \<in> set (s_handlers s) \<and> h_path h2 = [] \<and> h_method h2 \<noteq> ''HEAD'' \<and>
    hh_method hh = Some (h_method h2) \<and> hosts_compatible (h_host h2) (hh_host hh) \<and>
    hh_path hh = Some p \<and> hh_cb hh = Some cb \<and> env_alloc_ok env
    \<longrightarrow> http_server_add_handler env s hh arg freeit = Inl NNG_EADDRINUSE \<and>
        min (length (h_path h2)) (length (chop_trailing p)) = 0)"
proof -
  have chop: "set p \<subseteq> {CHR ''/''} \<Longrightarrow> chop_trailing p = []"
    by (auto simp: chop_trailing_rev)
  have a: "hh_path hh = Some p \<and> set p \<subseteq> {CHR ''/''} \<and>
    http_server_add_handler env s hh arg freeit = Inr (s', h)
    \<longrightarrow> h_path h = [] \<and> s_handlers s' = s_handlers s @ [h]"
    using chop
    by (cases "hh_method hh"; cases "hh_cb hh")
       (auto simp: http_server_add_handler_def Let_def split: if_splits)
  have b: "h2 \<in> set (s_handlers s) \<and> h_path h2 = [] \<and> h_method h2 \<noteq> ''HEAD'' \<and>
    hh_method hh = Some (h_method h2) \<and> hosts_compatible (h_host h2) (hh_host hh) \<and>
    hh_path hh = Some p \<and> hh_cb hh = Some cb \<and> env_alloc_ok env
    \<longrightarrow> http_server_add_handler env s hh arg freeit = Inl NNG_EADDRINUSE \<and>
        min (length (h_path h2)) (length (chop_trailing p)) = 0"
    by (auto simp: http_server_add_handler_def add_collides_iff strcmp_eq_0 Let_def)
  show ?thesis using a b by blast
qed


theorem add_handler_root_blocks_method_witness:
  "http_server_add_handler
     \<lparr>env_alloc_ok = True, env_init_error = (\<lambda>e. None), env_set_header_ok = True\<rparr>
     \<lparr>s_refcnt = 1, s_starts = 0, s_handlers = [], s_conns = [], s_closed = False,
      s_tls = None, s_tep = None\<rparr>
     \<lparr>hh_path = Some ''/'', hh_method = Some ''GET'', hh_host = None,
      hh_is_upgrader = False, hh_is_dir = True, hh_cb = Some 7\<rparr> 0 None
   = Inr (\<lparr>s_refcnt = 1, s_starts = 0,
           s_handlers = [\<lparr>h_arg = 0, h_path = [], h_method = ''GET'', h_host = None,
                          h_is_upgrader = False, h_is_dir = True, h_refcnt = 1, h_cb = 7,
                          h_free = None\<rparr>],
           s_conns = [], s_closed = False, s_tls = None, s_tep = None\<rparr>,
          \<lparr>h_arg = 0, h_path = [], h_method = ''GET'', h_host = None,
           h_is_upgrader = False, h_is_dir = True, h_refcnt = 1, h_cb = 7, h_free = None\<rparr>) \<and>
   http_server_add_handler
     \<lparr>env_alloc_ok = True, env_init_error = (\<lambda>e. None), env_set_header_ok = True\<rparr>
     \<lparr>s_refcnt = 1, s_starts = 0,
      s_handlers = [\<lparr>h_arg = 0, h_path = [], h_method = ''GET'', h_host = None,
                     h_is_upgrader = False, h_is_dir = True, h_refcnt = 1, h_cb = 7,
                     h_free = None\<rparr>],
      s_conns = [], s_closed = False, s_tls = None, s_tep = None\<rparr>
     \<lparr>hh_path = Some ''/x/y'', hh_method = Some ''GET'', hh_host = Some ''example.com'',
      hh_is_upgrader = False, hh_is_dir = False, hh_cb = Some 8\<rparr> 0 None
   = Inl NNG_EADDRINUSE"
proof -
  let ?e = "\<lparr>env_alloc_ok = True, env_init_error = (\<lambda>e. None), env_set_header_ok = True\<rparr>"
  let ?h = "\<lparr>h_arg = 0, h_path = [], h_method = ''GET'', h_host = None,
             h_is_upgrader = False, h_is_dir = True, h_refcnt = 1, h_cb = 7, h_free = None\<rparr>"
  let ?s0 = "\<lparr>s_refcnt = 1, s_starts = 0, s_handlers = [], s_conns = [], s_closed = False,
              s_tls = None, s_tep = None\<rparr>"
  let ?s1 = "\<lparr>s_refcnt = 1, s_starts = 0, s_handlers = [?h], s_conns = [], s_closed = False,
              s_tls = None, s_tep = None\<rparr>"
  let ?hh1 = "\<lparr>hh_path = Some ''/'', hh_method = Some ''GET'', hh_host = None,
               hh_is_upgrader = False, hh_is_dir = True, hh_cb = Some 7\<rparr>"
  let ?hh2 = "\<lparr>hh_path = Some ''/x/y'', hh_method = Some ''GET'', hh_host = Some ''example.com'',
               hh_is_upgrader = False, hh_is_dir = False, hh_cb = Some 8\<rparr>"
  have first: "http_server_add_handler ?e ?s0 ?hh1 0 None = Inr (?s1, ?h)"
    by (simp add: http_server_add_handler_def chop_trailing_rev Let_def)
  have stored: "h_path ?h = [] \<and> s_handlers ?s1 = s_handlers ?s0 @ [?h]"
    using add_handler_root_blocks_method [where env = ?e and hh = ?hh1 and p = "''/''"
        and s = ?s0 and arg = 0 and freeit = None and s' = ?s1 and h = ?h] first
    by simp
  have second: "http_server_add_handler ?e ?s1 ?hh2 0 None = Inl NNG_EADDRINUSE"
    using add_handler_root_blocks_method [where env = ?e and hh = ?hh2 and p = "''/x/y''"
        and s = ?s1 and arg = 0 and freeit = None and ?h2.0 = ?h and cb = 8]
    by simp
  show ?thesis
    using first stored second by simp
qed

section \<open>Properties of the handler lookup\<close>

lemma rxdone_lookup_none:
  "(\<forall>h \<in> set hs. \<not> (rxdone_host_match h req \<and> rxdone_path_match h path \<and>
                       rxdone_method_match h req)) \<Longrightarrow>
   rxdone_lookup hs i req path b =
     (None, b \<or> (\<exists>h \<in> set hs. rxdone_host_match h req \<and> rxdone_path_match h path))"
  by (induction hs arbitrary: i b) auto

lemma rxdone_lookup_found:
  "(\<forall>h' \<in> set pre. \<not> (rxdone_host_match h' req \<and> rxdone_path_match h' path \<and>
                        rxdone_method_match h' req)) \<Longrightarrow>
   rxdone_host_match h req \<Longrightarrow> rxdone_path_match h path \<Longrightarrow> rxdone_method_match h req \<Longrightarrow>
   rxdone_lookup (pre @ h # post) i req path b =
     (Some (i + length pre),
      b \<or> (\<exists>h' \<in> set pre. rxdone_host_match h' req \<and> rxdone_path_match h' path))"
  by (induction pre arbitrary: i b) auto

lemma char_at_NUL_iff: "NUL \<notin> set s \<Longrightarrow> char_at s i = NUL \<longleftrightarrow> length s \<le> i"
  unfolding char_at_def by (metis leD not_le_imp_less nth_mem)

lemma path_match_iff:
  assumes "NUL \<notin> set path"
  shows "rxdone_path_match h path \<longleftrightarrow>
     (let L = length (h_path h)
      in take L path = h_path h \<and>
         (drop L path = [] \<or> drop L path = ''/'' \<or>
          (h_is_dir h \<and> (\<exists>r. r \<noteq> [] \<and> drop L path = CHR ''/'' # r))))"
proof -
  define L where "L = length (h_path h)"
  have slash: "CHR ''/'' \<noteq> NUL" by (simp add: NUL_def)
  show ?thesis
  proof (cases "take L path = h_path h")
    case False
    then show ?thesis
      by (simp add: rxdone_path_match_def Let_def strncmp_eq_0 L_def)
  next
    case True
    then have len: "L \<le> length path"
      by (metis L_def length_take min.cobounded1 min.commute)
    show ?thesis
    proof (cases "drop L path")
      case Nil
      then have "length path \<le> L" by simp
      then show ?thesis
        using True Nil by (simp add: rxdone_path_match_def Let_def strncmp_eq_0 L_def [symmetric] char_at_def)
    next
      case (Cons c r)
      then have lt: "L < length path"
        using len by (metis drop_eq_Nil le_neq_implies_less list.distinct(1) order_refl)
      have c: "path ! L = c"
        using Cons lt by (metis Cons_nth_drop_Suc list.inject)
      have cn: "c \<noteq> NUL"
        using assms c lt by (metis nth_mem)
      have r: "r = drop (Suc L) path"
        using Cons lt by (metis Cons_nth_drop_Suc list.inject)
      have nxt: "char_at path (L + 1) = NUL \<longleftrightarrow> r = []"
        using assms r by (simp add: char_at_NUL_iff)
      show ?thesis
        using True Cons lt c cn nxt slash
        by (auto simp: rxdone_path_match_def Let_def strncmp_eq_0 L_def [symmetric] char_at_def)
    qed
  qed
qed

text \<open>
  C4. A handler's path matches the canonified request path exactly when the path begins
  with the handler's path and what follows is nothing, a single \<open>/\<close>, or, for a directory
  handler only, a \<open>/\<close> and more characters. A handler whose path does not match is skipped
  by the lookup. With the directory flag set, \<open>/static\<close> matches \<open>/static/foo\<close> and never
  \<open>/staticx\<close>.
\<close>

theorem lookup_path_match:
  "(canonify_uri u = Inr path \<longrightarrow>
      (rxdone_path_match h path \<longleftrightarrow>
         (let L = length (h_path h)
          in take L path = h_path h \<and>
             (drop L path = [] \<or> drop L path = ''/'' \<or>
              (h_is_dir h \<and> (\<exists>r. r \<noteq> [] \<and> drop L path = CHR ''/'' # r)))))) \<and>
   (\<not> rxdone_path_match h path \<longrightarrow>
      rxdone_lookup (h # hs) i req path b = rxdone_lookup hs (Suc i) req path b) \<and>
   (h_path h = ''/static'' \<and> h_is_dir h \<longrightarrow>
      rxdone_path_match h ''/static/foo'' \<and> \<not> rxdone_path_match h ''/staticx'')"
proof -
  have n1: "NUL \<notin> set ''/static/foo''" and n2: "NUL \<notin> set ''/staticx''"
    by (simp_all add: NUL_def)
  have ex: "h_path h = ''/static'' \<and> h_is_dir h \<longrightarrow>
      rxdone_path_match h ''/static/foo'' \<and> \<not> rxdone_path_match h ''/staticx''"
    by (simp add: path_match_iff [OF n1] path_match_iff [OF n2])
  show ?thesis
    using ex canonify_uri_no_NUL [of u path] path_match_iff [of path h] by auto
qed

theorem lookup_path_match_witness:
  "canonify_uri ''/static/foo?x=1'' = Inr ''/static/foo'' \<and>
   rxdone_path_match
     \<lparr>h_arg = 0, h_path = ''/static'', h_method = ''GET'', h_host = None,
      h_is_upgrader = False, h_is_dir = True, h_refcnt = 1, h_cb = 7, h_free = None\<rparr>
     ''/static/foo'' \<and>
   \<not> rxdone_path_match
     \<lparr>h_arg = 0, h_path = ''/static'', h_method = ''GET'', h_host = None,
      h_is_upgrader = False, h_is_dir = True, h_refcnt = 1, h_cb = 7, h_free = None\<rparr>
     ''/staticx'' \<and>
   \<not> rxdone_path_match
     \<lparr>h_arg = 0, h_path = ''/static'', h_method = ''GET'', h_host = None,
      h_is_upgrader = False, h_is_dir = False, h_refcnt = 1, h_cb = 7, h_free = None\<rparr>
     ''/static/foo''"
proof -
  let ?d = "\<lparr>h_arg = 0, h_path = ''/static'', h_method = ''GET'', h_host = None,
      h_is_upgrader = False, h_is_dir = True, h_refcnt = 1, h_cb = 7, h_free = None\<rparr>"
  let ?f = "\<lparr>h_arg = 0, h_path = ''/static'', h_method = ''GET'', h_host = None,
      h_is_upgrader = False, h_is_dir = False, h_refcnt = 1, h_cb = 7, h_free = None\<rparr>"
  have c: "canonify_uri ''/static/foo?x=1'' = Inr ''/static/foo''"
    by code_simp
  have a: "rxdone_path_match ?d ''/static/foo'' \<and> \<not> rxdone_path_match ?d ''/staticx''"
    using lookup_path_match [of _ _ ?d] by simp
  have b: "\<not> rxdone_path_match ?f ''/static/foo''"
    using lookup_path_match [of "''/static/foo?x=1''" "''/static/foo''" ?f] c by simp
  show ?thesis using a b c by simp
qed

section \<open>Properties of the sessions\<close>

lemma sconn_error_eq:
  "env_init_error env err = Some r \<Longrightarrow> env_set_header_ok env \<Longrightarrow>
   http_sconn_error env sc err =
     (let r = (if sc_close sc then nni_http_res_set_header r ''Connection'' ''close'' else r)
      in (sc\<lparr>sc_res := Some r\<rparr>, [WriteRes r]))"
  by (simp add: http_sconn_error_def Let_def)

text \<open>
  C7. The allocator and the codec succeed. After a request with an acceptable version
  whose URI canonifies to \<open>path\<close>, when no registered handler matches host, path and method, the session writes the codec's error
  response for method-not-allowed if some handler matched host and path, and for
  not-found otherwise (with the close header when the close flag is set). A \<open>GET /x\<close> with
  only \<open>POST /x\<close> registered gets method-not-allowed.
\<close>

theorem lookup_failure_status:
  assumes "env_alloc_ok env" and "env_set_header_ok env"
    and "\<forall>c. env_init_error env c = Some (ie c)"
  shows
  "(sc_req sc = Some req \<and> nni_http_req_get_version req = Some v \<and>
    strncmp v ''HTTP/1.'' 7 = 0 \<and>
    canonify_uri (nni_http_req_get_uri req) = Inr path \<and>
    (\<forall>h \<in> set hs. \<not> (rxdone_host_match h req \<and> rxdone_path_match h path \<and>
                        rxdone_method_match h req))
    \<longrightarrow>
    (\<exists>sc' res.
       http_sconn_rxdone env 0 start_rv hs sc = Inr (hs, sc', [WriteRes res]) \<and>
       sc_res sc' = Some res \<and>
       res =
         (let r = ie (if \<exists>h \<in> set hs. rxdone_host_match h req \<and> rxdone_path_match h path
                      then NNI_HTTP_STATUS_METHOD_NOT_ALLOWED
                      else NNI_HTTP_STATUS_NOT_FOUND)
          in if sc_close sc' then nni_http_res_set_header r ''Connection'' ''close'' else r))) \<and>
   (h_method h = ''POST'' \<and> h_path h = ''/x'' \<and> h_host h = None \<and>
    sc_req sc = Some req \<and> \<not> sc_close sc \<and>
    req_version req = Some ''HTTP/1.1'' \<and> req_method req = ''GET'' \<and> req_uri req = ''/x'' \<and>
    req_headers req = []
    \<longrightarrow>
    http_sconn_rxdone env 0 start_rv [h] sc =
      Inr ([h], sc\<lparr>sc_res := Some (ie NNI_HTTP_STATUS_METHOD_NOT_ALLOWED)\<rparr>,
           [WriteRes (ie NNI_HTTP_STATUS_METHOD_NOT_ALLOWED)]))"
proof -
  note err = sconn_error_eq [OF assms(3) [rule_format] assms(2)]
  have gen: "\<exists>sc' res.
       http_sconn_rxdone env 0 start_rv hs sc = Inr (hs, sc', [WriteRes res]) \<and>
       sc_res sc' = Some res \<and>
       res =
         (let r = ie (if \<exists>h \<in> set hs. rxdone_host_match h req \<and> rxdone_path_match h path
                      then NNI_HTTP_STATUS_METHOD_NOT_ALLOWED
                      else NNI_HTTP_STATUS_NOT_FOUND)
          in if sc_close sc' then nni_http_res_set_header r ''Connection'' ''close'' else r)"
    if a: "sc_req sc = Some req" "nni_http_req_get_version req = Some v"
      "strncmp v ''HTTP/1.'' 7 = 0" "canonify_uri (nni_http_req_get_uri req) = Inr path"
      and none: "\<forall>h \<in> set hs. \<not> (rxdone_host_match h req \<and> rxdone_path_match h path \<and>
                        rxdone_method_match h req)"
  proof -
    define bm where
      "bm \<longleftrightarrow> (\<exists>h \<in> set hs. rxdone_host_match h req \<and> rxdone_path_match h path)"
    have lk: "rxdone_lookup hs 0 req path False = (None, bm)"
      using rxdone_lookup_none [OF none, of 0 False] by (simp add: bm_def)
    have "\<exists>sc' res.
       http_sconn_rxdone env 0 start_rv hs sc = Inr (hs, sc', [WriteRes res]) \<and>
       sc_res sc' = Some res \<and>
       res =
         (let r = ie (if bm then NNI_HTTP_STATUS_METHOD_NOT_ALLOWED
                      else NNI_HTTP_STATUS_NOT_FOUND)
          in if sc_close sc' then nni_http_res_set_header r ''Connection'' ''close'' else r)"
      using a lk assms(1)
      by (cases bm)
         (simp_all add: http_sconn_rxdone_def err Let_def split: option.splits)
    then show ?thesis
      unfolding bm_def .
  qed
  have cx: "canonify_uri ''/x'' = Inr ''/x''"
    by code_simp
  have ex: "http_sconn_rxdone env 0 start_rv [h] sc =
      Inr ([h], sc\<lparr>sc_res := Some (ie NNI_HTTP_STATUS_METHOD_NOT_ALLOWED)\<rparr>,
           [WriteRes (ie NNI_HTTP_STATUS_METHOD_NOT_ALLOWED)])"
    if b: "h_method h = ''POST''" "h_path h = ''/x''" "h_host h = None"
      "sc_req sc = Some req" "\<not> sc_close sc"
      "req_version req = Some ''HTTP/1.1''" "req_method req = ''GET''" "req_uri req = ''/x''"
      "req_headers req = []"
  proof -
    have hm: "rxdone_host_match h req"
      using b by (simp add: rxdone_host_match_def)
    have pm: "rxdone_path_match h ''/x''"
      using b by (simp add: rxdone_path_match_def char_at_def strncmp_eq_0)
    have mm: "\<not> rxdone_method_match h req"
      using b by (simp add: rxdone_method_match_def nni_http_req_get_method_def strcmp_eq_0)
    show ?thesis
      using b cx hm pm mm assms(1)
      by (simp add: http_sconn_rxdone_def err Let_def nni_http_req_get_version_def
          nni_http_req_get_uri_def nni_http_req_get_header_def strncmp_eq_0 strcmp_eq_0)
  qed
  show ?thesis
    using gen ex by blast
qed

theorem lookup_failure_status_witness:
  "http_sconn_rxdone
     \<lparr>env_alloc_ok = True,
      env_init_error = (\<lambda>e. Some \<lparr>res_status = e, res_headers = [], res_data = ''error''\<rparr>),
      env_set_header_ok = True\<rparr> 0 0
     [\<lparr>h_arg = 0, h_path = ''/x'', h_method = ''POST'', h_host = None, h_is_upgrader = False,
       h_is_dir = False, h_refcnt = 1, h_cb = 7, h_free = None\<rparr>]
     \<lparr>sc_http = Some 1,
      sc_req = Some \<lparr>req_version = Some ''HTTP/1.1'', req_method = ''GET'', req_uri = ''/x'',
                     req_headers = []\<rparr>,
      sc_res = None, sc_close = False, sc_closed = False, sc_finished = False\<rparr>
   = Inr ([\<lparr>h_arg = 0, h_path = ''/x'', h_method = ''POST'', h_host = None,
            h_is_upgrader = False, h_is_dir = False, h_refcnt = 1, h_cb = 7, h_free = None\<rparr>],
          \<lparr>sc_http = Some 1,
           sc_req = Some \<lparr>req_version = Some ''HTTP/1.1'', req_method = ''GET'', req_uri = ''/x'',
                          req_headers = []\<rparr>,
           sc_res = Some \<lparr>res_status = 405, res_headers = [], res_data = ''error''\<rparr>,
           sc_close = False, sc_closed = False, sc_finished = False\<rparr>,
          [WriteRes \<lparr>res_status = 405, res_headers = [], res_data = ''error''\<rparr>]) \<and>
   (\<exists>sc'. http_sconn_rxdone
     \<lparr>env_alloc_ok = True,
      env_init_error = (\<lambda>e. Some \<lparr>res_status = e, res_headers = [], res_data = ''error''\<rparr>),
      env_set_header_ok = True\<rparr> 0 0
     [\<lparr>h_arg = 0, h_path = ''/x'', h_method = ''POST'', h_host = None, h_is_upgrader = False,
       h_is_dir = False, h_refcnt = 1, h_cb = 7, h_free = None\<rparr>]
     \<lparr>sc_http = Some 1,
      sc_req = Some \<lparr>req_version = Some ''HTTP/1.1'', req_method = ''GET'', req_uri = ''/y'',
                     req_headers = []\<rparr>,
      sc_res = None, sc_close = False, sc_closed = False, sc_finished = False\<rparr>
   = Inr ([\<lparr>h_arg = 0, h_path = ''/x'', h_method = ''POST'', h_host = None,
            h_is_upgrader = False, h_is_dir = False, h_refcnt = 1, h_cb = 7, h_free = None\<rparr>],
          sc',
          [WriteRes \<lparr>res_status = 404, res_headers = [], res_data = ''error''\<rparr>]))"
proof -
  let ?ie = "\<lambda>e. \<lparr>res_status = e, res_headers = [], res_data = ''error''\<rparr>"
  let ?env = "\<lparr>env_alloc_ok = True, env_init_error = (\<lambda>e. Some (?ie e)),
               env_set_header_ok = True\<rparr>"
  have e1: "env_alloc_ok ?env" and e2: "env_set_header_ok ?env"
    and e3: "\<forall>c. env_init_error ?env c = Some (?ie c)"
    by simp_all
  let ?h = "\<lparr>h_arg = 0, h_path = ''/x'', h_method = ''POST'', h_host = None,
             h_is_upgrader = False, h_is_dir = False, h_refcnt = 1, h_cb = 7, h_free = None\<rparr>"
  let ?rx = "\<lparr>req_version = Some ''HTTP/1.1'', req_method = ''GET'', req_uri = ''/x'',
              req_headers = []\<rparr>"
  let ?ry = "\<lparr>req_version = Some ''HTTP/1.1'', req_method = ''GET'', req_uri = ''/y'',
              req_headers = []\<rparr>"
  let ?sx = "\<lparr>sc_http = Some 1, sc_req = Some ?rx, sc_res = None, sc_close = False,
              sc_closed = False, sc_finished = False\<rparr>"
  let ?sy = "\<lparr>sc_http = Some 1, sc_req = Some ?ry, sc_res = None, sc_close = False,
              sc_closed = False, sc_finished = False\<rparr>"
  have x: "http_sconn_rxdone ?env 0 0 [?h] ?sx =
      Inr ([?h], ?sx\<lparr>sc_res := Some (?ie NNI_HTTP_STATUS_METHOD_NOT_ALLOWED)\<rparr>,
           [WriteRes (?ie NNI_HTTP_STATUS_METHOD_NOT_ALLOWED)])"
    using lookup_failure_status [OF e1 e2 e3, where h = ?h and sc = ?sx and req = ?rx
        and start_rv = 0]
    by simp
  have cy: "canonify_uri ''/y'' = Inr ''/y''"
    by code_simp
  have nm: "\<not> rxdone_path_match ?h ''/y''"
    by (simp add: rxdone_path_match_def strncmp_eq_0)
  have y: "\<exists>sc' res. http_sconn_rxdone ?env 0 0 [?h] ?sy = Inr ([?h], sc', [WriteRes res]) \<and>
       sc_res sc' = Some res \<and>
       res = (let r = ?ie (if \<exists>h \<in> set [?h]. rxdone_host_match h ?ry \<and> rxdone_path_match h ''/y''
                      then NNI_HTTP_STATUS_METHOD_NOT_ALLOWED
                      else NNI_HTTP_STATUS_NOT_FOUND)
          in if sc_close sc' then nni_http_res_set_header r ''Connection'' ''close'' else r)"
    using lookup_failure_status [OF e1 e2 e3, where sc = ?sy and req = ?ry
        and v = "''HTTP/1.1''" and path = "''/y''" and hs = "[?h]" and start_rv = 0] cy nm
    by (simp add: nni_http_req_get_version_def nni_http_req_get_uri_def strncmp_eq_0)
  have cl: "sc' = fst (snd (projr (http_sconn_rxdone ?env 0 0 [?h] ?sy))) \<Longrightarrow> \<not> sc_close sc'" for sc'
    by (simp add: http_sconn_rxdone_def nni_http_req_get_version_def nni_http_req_get_uri_def
        nni_http_req_get_header_def strncmp_eq_0 strcmp_eq_0 cy nm Let_def http_sconn_error_def)
  from y obtain sc' res where
    r: "http_sconn_rxdone ?env 0 0 [?h] ?sy = Inr ([?h], sc', [WriteRes res])" and
    res: "res = (let r = ?ie (if \<exists>h \<in> set [?h]. rxdone_host_match h ?ry \<and> rxdone_path_match h ''/y''
                      then NNI_HTTP_STATUS_METHOD_NOT_ALLOWED
                      else NNI_HTTP_STATUS_NOT_FOUND)
          in if sc_close sc' then nni_http_res_set_header r ''Connection'' ''close'' else r)"
    by blast
  have "\<not> sc_close sc'"
    using cl [of sc'] r by simp
  then have "res = \<lparr>res_status = 404, res_headers = [], res_data = ''error''\<rparr>"
    using res nm by (simp add: NNI_HTTP_STATUS_NOT_FOUND_def)
  then have y': "\<exists>sc'. http_sconn_rxdone ?env 0 0 [?h] ?sy =
      Inr ([?h], sc', [WriteRes \<lparr>res_status = 404, res_headers = [], res_data = ''error''\<rparr>])"
    using r by blast
  show ?thesis
    using x y' by (simp add: NNI_HTTP_STATUS_METHOD_NOT_ALLOWED_def)
qed

lemma rxdone_version_ok:
  assumes "env_alloc_ok env" "env_set_header_ok env" "\<forall>c. env_init_error env c = Some (ie c)"
    and "sc_req sc = Some req" "nni_http_req_get_version req = Some v"
    "take 7 v = ''HTTP/1.''" "canonify_uri (nni_http_req_get_uri req) = Inr path"
  shows "http_sconn_rxdone env 0 start_rv hs sc =
     (let sc2 = sc\<lparr>sc_close := sc_close sc \<or> v \<noteq> ''HTTP/1.1'' \<or> req_wants_close req\<rparr>
      in case rxdone_lookup hs 0 req path False of
           (None, badmeth) \<Rightarrow>
             (let r = nni_http_res_set_header
                        (ie (if badmeth then NNI_HTTP_STATUS_METHOD_NOT_ALLOWED
                             else NNI_HTTP_STATUS_NOT_FOUND)) ''Connection'' ''close'';
                  r = (if sc_close sc2 then r
                       else ie (if badmeth then NNI_HTTP_STATUS_METHOD_NOT_ALLOWED
                                else NNI_HTTP_STATUS_NOT_FOUND))
              in Inr (hs, sc2\<lparr>sc_res := Some r\<rparr>, [WriteRes r]))
         | (Some i, badmeth) \<Rightarrow>
             if start_rv = 0 then
               Inr (hs[i := (hs ! i)\<lparr>h_refcnt := h_refcnt (hs ! i) + 1\<rparr>], sc2,
                    [CallHandler ((hs ! i)\<lparr>h_refcnt := h_refcnt (hs ! i) + 1\<rparr>)])
             else Inr (hs, sc2, []))"
proof -
  note err = sconn_error_eq [OF assms(3) [rule_format] assms(2)]
  have sc_id: "sc\<lparr>sc_close := sc_close sc\<rparr> = sc" by simp
  obtain f bm where lk: "rxdone_lookup hs 0 req path False = (f, bm)"
    by (cases "rxdone_lookup hs 0 req path False") auto
  show ?thesis
    using assms lk
    by (cases f; cases bm; cases "v = ''HTTP/1.1''"; cases "sc_close sc";
        cases "nni_http_req_get_header req ''Connection''")
       (simp_all add: http_sconn_rxdone_def err Let_def strncmp_eq_0 strcmp_eq_0
          req_wants_close_def sc_id)
qed

text \<open>
  C5. The allocator and the codec succeed. On a received request: without a version the session sets the close flag and
  writes the error response for bad request; with a version that does not begin with
  \<open>HTTP/1.\<close> it sets the close flag and writes the error response for version not
  supported; with another \<open>HTTP/1.x\<close> than \<open>HTTP/1.1\<close> the lookup runs as usual and the
  close flag is set; with exactly \<open>HTTP/1.1\<close> the lookup runs and the close flag is set
  only if it was set before or the request's \<^verbatim>\<open>Connection\<close> header asks for it. A
  session whose close flag is set is closed by the completion of the body write, and by
  the completion of the header write when that posts no body write; neither posts the
  read of another request.
\<close>

theorem version_policy:
  assumes "env_alloc_ok env" and "env_set_header_ok env"
    and "\<forall>c. env_init_error env c = Some (ie c)"
    and "sc_req sc = Some req"
  shows
   "(nni_http_req_get_version req = None \<longrightarrow>
       http_sconn_rxdone env 0 start_rv hs sc =
         Inr (hs,
              sc\<lparr>sc_close := True,
                 sc_res := Some (nni_http_res_set_header (ie NNI_HTTP_STATUS_BAD_REQUEST)
                                   ''Connection'' ''close'')\<rparr>,
              [WriteRes (nni_http_res_set_header (ie NNI_HTTP_STATUS_BAD_REQUEST)
                           ''Connection'' ''close'')])) \<and>
    (nni_http_req_get_version req = Some v \<and> take 7 v \<noteq> ''HTTP/1.'' \<longrightarrow>
       http_sconn_rxdone env 0 start_rv hs sc =
         Inr (hs,
              sc\<lparr>sc_close := True,
                 sc_res := Some (nni_http_res_set_header
                                   (ie NNI_HTTP_STATUS_HTTP_VERSION_NOT_SUPP)
                                   ''Connection'' ''close'')\<rparr>,
              [WriteRes (nni_http_res_set_header (ie NNI_HTTP_STATUS_HTTP_VERSION_NOT_SUPP)
                           ''Connection'' ''close'')])) \<and>
    (nni_http_req_get_version req = Some v \<and> take 7 v = ''HTTP/1.'' \<and> v \<noteq> ''HTTP/1.1'' \<and>
     canonify_uri (nni_http_req_get_uri req) = Inr path \<longrightarrow>
       (\<exists>hs' sc'.
          http_sconn_rxdone env 0 start_rv hs sc =
            Inr (hs', sc', lookup_outcome ie start_rv hs req path True) \<and>
          sc_close sc')) \<and>
    (nni_http_req_get_version req = Some ''HTTP/1.1'' \<and>
     canonify_uri (nni_http_req_get_uri req) = Inr path \<longrightarrow>
       (\<exists>hs' sc'.
          http_sconn_rxdone env 0 start_rv hs sc =
            Inr (hs', sc', lookup_outcome ie start_rv hs req path (sc_close sc')) \<and>
          (sc_close sc' \<longleftrightarrow> sc_close sc \<or> req_wants_close req))) \<and>
    (sc_close sd \<longrightarrow>
       sc_closed (fst (http_sconn_txdatdone rv' sd)) \<and>
       ReadReq \<notin> set (snd (http_sconn_txdatdone rv' sd)) \<and>
       (http_sconn_txdone rv' sd = Inr (sd', ops') \<longrightarrow>
          (\<exists>d. d \<noteq> [] \<and> ops' = [WriteFull d] \<and> sd' = sd) \<or>
          (sc_closed sd' \<and> ReadReq \<notin> set ops')))"
proof -
  note err = sconn_error_eq [OF assms(3) [rule_format] assms(2)]
  have a: "nni_http_req_get_version req = None \<longrightarrow>
       http_sconn_rxdone env 0 start_rv hs sc =
         Inr (hs,
              sc\<lparr>sc_close := True,
                 sc_res := Some (nni_http_res_set_header (ie NNI_HTTP_STATUS_BAD_REQUEST)
                                   ''Connection'' ''close'')\<rparr>,
              [WriteRes (nni_http_res_set_header (ie NNI_HTTP_STATUS_BAD_REQUEST)
                           ''Connection'' ''close'')])"
    using assms(4) by (simp add: http_sconn_rxdone_def err Let_def)
  have b: "nni_http_req_get_version req = Some v \<and> take 7 v \<noteq> ''HTTP/1.'' \<longrightarrow>
       http_sconn_rxdone env 0 start_rv hs sc =
         Inr (hs,
              sc\<lparr>sc_close := True,
                 sc_res := Some (nni_http_res_set_header
                                   (ie NNI_HTTP_STATUS_HTTP_VERSION_NOT_SUPP)
                                   ''Connection'' ''close'')\<rparr>,
              [WriteRes (nni_http_res_set_header (ie NNI_HTTP_STATUS_HTTP_VERSION_NOT_SUPP)
                           ''Connection'' ''close'')])"
    using assms(4) by (simp add: http_sconn_rxdone_def err strncmp_eq_0 Let_def)
  have c: "\<exists>hs' sc'.
          http_sconn_rxdone env 0 start_rv hs sc =
            Inr (hs', sc', lookup_outcome ie start_rv hs req path True) \<and>
          sc_close sc'"
    if "nni_http_req_get_version req = Some v" "take 7 v = ''HTTP/1.''" "v \<noteq> ''HTTP/1.1''"
      "canonify_uri (nni_http_req_get_uri req) = Inr path"
    using rxdone_version_ok [OF assms that(1,2,4), of start_rv hs] that(3)
    by (auto simp: lookup_outcome_def Let_def split: prod.splits option.splits)
  have d: "\<exists>hs' sc'.
          http_sconn_rxdone env 0 start_rv hs sc =
            Inr (hs', sc', lookup_outcome ie start_rv hs req path (sc_close sc')) \<and>
          (sc_close sc' \<longleftrightarrow> sc_close sc \<or> req_wants_close req)"
    if "nni_http_req_get_version req = Some ''HTTP/1.1''"
      "canonify_uri (nni_http_req_get_uri req) = Inr path"
    using rxdone_version_ok [OF assms that(1) _ that(2), of start_rv hs]
    by (auto simp: lookup_outcome_def Let_def split: prod.splits option.splits)
  have e: "sc_close sd \<longrightarrow>
       sc_closed (fst (http_sconn_txdatdone rv' sd)) \<and>
       ReadReq \<notin> set (snd (http_sconn_txdatdone rv' sd)) \<and>
       (http_sconn_txdone rv' sd = Inr (sd', ops') \<longrightarrow>
          (\<exists>d. d \<noteq> [] \<and> ops' = [WriteFull d] \<and> sd' = sd) \<or>
          (sc_closed sd' \<and> ReadReq \<notin> set ops'))"
    by (auto simp: http_sconn_txdatdone_def http_sconn_txdone_def http_sconn_close_def
        http_sconn_close_locked_def Let_def split: if_splits option.splits sum.splits)
  show ?thesis
    using a b c d e by blast
qed

theorem version_policy_witness:
  "http_sconn_rxdone
     \<lparr>env_alloc_ok = True,
      env_init_error = (\<lambda>e. Some \<lparr>res_status = e, res_headers = [], res_data = ''error''\<rparr>),
      env_set_header_ok = True\<rparr> 0 0
     [\<lparr>h_arg = 0, h_path = ''/a'', h_method = ''GET'', h_host = None, h_is_upgrader = False,
       h_is_dir = False, h_refcnt = 1, h_cb = 7, h_free = None\<rparr>]
     \<lparr>sc_http = Some 1,
      sc_req = Some \<lparr>req_version = None, req_method = ''GET'', req_uri = ''/a'',
                     req_headers = []\<rparr>,
      sc_res = None, sc_close = False, sc_closed = False, sc_finished = False\<rparr>
   = Inr ([\<lparr>h_arg = 0, h_path = ''/a'', h_method = ''GET'', h_host = None,
            h_is_upgrader = False, h_is_dir = False, h_refcnt = 1, h_cb = 7, h_free = None\<rparr>],
          \<lparr>sc_http = Some 1,
           sc_req = Some \<lparr>req_version = None, req_method = ''GET'', req_uri = ''/a'',
                          req_headers = []\<rparr>,
           sc_res = Some \<lparr>res_status = 400, res_headers = [(''Connection'', ''close'')],
                          res_data = ''error''\<rparr>,
           sc_close = True, sc_closed = False, sc_finished = False\<rparr>,
          [WriteRes \<lparr>res_status = 400, res_headers = [(''Connection'', ''close'')],
                     res_data = ''error''\<rparr>]) \<and>
   http_sconn_rxdone
     \<lparr>env_alloc_ok = True,
      env_init_error = (\<lambda>e. Some \<lparr>res_status = e, res_headers = [], res_data = ''error''\<rparr>),
      env_set_header_ok = True\<rparr> 0 0
     [\<lparr>h_arg = 0, h_path = ''/a'', h_method = ''GET'', h_host = None, h_is_upgrader = False,
       h_is_dir = False, h_refcnt = 1, h_cb = 7, h_free = None\<rparr>]
     \<lparr>sc_http = Some 1,
      sc_req = Some \<lparr>req_version = Some ''HTTP/2.0'', req_method = ''GET'', req_uri = ''/a'',
                     req_headers = []\<rparr>,
      sc_res = None, sc_close = False, sc_closed = False, sc_finished = False\<rparr>
   = Inr ([\<lparr>h_arg = 0, h_path = ''/a'', h_method = ''GET'', h_host = None,
            h_is_upgrader = False, h_is_dir = False, h_refcnt = 1, h_cb = 7, h_free = None\<rparr>],
          \<lparr>sc_http = Some 1,
           sc_req = Some \<lparr>req_version = Some ''HTTP/2.0'', req_method = ''GET'', req_uri = ''/a'',
                          req_headers = []\<rparr>,
           sc_res = Some \<lparr>res_status = 505, res_headers = [(''Connection'', ''close'')],
                          res_data = ''error''\<rparr>,
           sc_close = True, sc_closed = False, sc_finished = False\<rparr>,
          [WriteRes \<lparr>res_status = 505, res_headers = [(''Connection'', ''close'')],
                     res_data = ''error''\<rparr>]) \<and>
   http_sconn_rxdone
     \<lparr>env_alloc_ok = True,
      env_init_error = (\<lambda>e. Some \<lparr>res_status = e, res_headers = [], res_data = ''error''\<rparr>),
      env_set_header_ok = True\<rparr> 0 0
     [\<lparr>h_arg = 0, h_path = ''/a'', h_method = ''GET'', h_host = None, h_is_upgrader = False,
       h_is_dir = False, h_refcnt = 1, h_cb = 7, h_free = None\<rparr>]
     \<lparr>sc_http = Some 1,
      sc_req = Some \<lparr>req_version = Some ''HTTP/1.0'', req_method = ''GET'', req_uri = ''/a'',
                     req_headers = []\<rparr>,
      sc_res = None, sc_close = False, sc_closed = False, sc_finished = False\<rparr>
   = Inr ([\<lparr>h_arg = 0, h_path = ''/a'', h_method = ''GET'', h_host = None,
            h_is_upgrader = False, h_is_dir = False, h_refcnt = 2, h_cb = 7, h_free = None\<rparr>],
          \<lparr>sc_http = Some 1,
           sc_req = Some \<lparr>req_version = Some ''HTTP/1.0'', req_method = ''GET'', req_uri = ''/a'',
                          req_headers = []\<rparr>,
           sc_res = None, sc_close = True, sc_closed = False, sc_finished = False\<rparr>,
          [CallHandler \<lparr>h_arg = 0, h_path = ''/a'', h_method = ''GET'', h_host = None,
                        h_is_upgrader = False, h_is_dir = False, h_refcnt = 2, h_cb = 7,
                        h_free = None\<rparr>]) \<and>
   http_sconn_rxdone
     \<lparr>env_alloc_ok = True,
      env_init_error = (\<lambda>e. Some \<lparr>res_status = e, res_headers = [], res_data = ''error''\<rparr>),
      env_set_header_ok = True\<rparr> 0 0
     [\<lparr>h_arg = 0, h_path = ''/a'', h_method = ''GET'', h_host = None, h_is_upgrader = False,
       h_is_dir = False, h_refcnt = 1, h_cb = 7, h_free = None\<rparr>]
     \<lparr>sc_http = Some 1,
      sc_req = Some \<lparr>req_version = Some ''HTTP/1.1'', req_method = ''GET'', req_uri = ''/a'',
                     req_headers = []\<rparr>,
      sc_res = None, sc_close = False, sc_closed = False, sc_finished = False\<rparr>
   = Inr ([\<lparr>h_arg = 0, h_path = ''/a'', h_method = ''GET'', h_host = None,
            h_is_upgrader = False, h_is_dir = False, h_refcnt = 2, h_cb = 7, h_free = None\<rparr>],
          \<lparr>sc_http = Some 1,
           sc_req = Some \<lparr>req_version = Some ''HTTP/1.1'', req_method = ''GET'', req_uri = ''/a'',
                          req_headers = []\<rparr>,
           sc_res = None, sc_close = False, sc_closed = False, sc_finished = False\<rparr>,
          [CallHandler \<lparr>h_arg = 0, h_path = ''/a'', h_method = ''GET'', h_host = None,
                        h_is_upgrader = False, h_is_dir = False, h_refcnt = 2, h_cb = 7,
                        h_free = None\<rparr>])"
proof -
  let ?ie = "\<lambda>e. \<lparr>res_status = e, res_headers = [], res_data = ''error''\<rparr>"
  let ?env = "\<lparr>env_alloc_ok = True, env_init_error = (\<lambda>e. Some (?ie e)),
               env_set_header_ok = True\<rparr>"
  have e1: "env_alloc_ok ?env" and e2: "env_set_header_ok ?env"
    and e3: "\<forall>c. env_init_error ?env c = Some (?ie c)"
    by simp_all
  let ?h = "\<lparr>h_arg = 0, h_path = ''/a'', h_method = ''GET'', h_host = None,
             h_is_upgrader = False, h_is_dir = False, h_refcnt = 1, h_cb = 7, h_free = None\<rparr>"
  let ?r = "\<lambda>v. \<lparr>req_version = v, req_method = ''GET'', req_uri = ''/a'', req_headers = []\<rparr>"
  let ?s = "\<lambda>v. \<lparr>sc_http = Some 1, sc_req = Some (?r v), sc_res = None, sc_close = False,
              sc_closed = False, sc_finished = False\<rparr>"
  have ca: "canonify_uri ''/a'' = Inr ''/a''"
    by code_simp
  have lk: "rxdone_lookup [?h] 0 (?r v) ''/a'' False = (Some 0, False)" for v
    by (simp add: rxdone_host_match_def rxdone_path_match_def rxdone_method_match_def
        nni_http_req_get_method_def strncmp_eq_0 strcmp_eq_0 char_at_def)
  have nowant: "\<not> req_wants_close (?r v)" for v
    by (simp add: req_wants_close_def nni_http_req_get_header_def)
  have a: "http_sconn_rxdone ?env 0 0 [?h] (?s None) =
      Inr ([?h],
           (?s None)\<lparr>sc_close := True,
              sc_res := Some (nni_http_res_set_header (?ie NNI_HTTP_STATUS_BAD_REQUEST)
                                ''Connection'' ''close'')\<rparr>,
           [WriteRes (nni_http_res_set_header (?ie NNI_HTTP_STATUS_BAD_REQUEST)
                        ''Connection'' ''close'')])"
    using version_policy [OF e1 e2 e3, where sc = "?s None" and req = "?r None"
        and start_rv = 0 and hs = "[?h]"]
    by (simp add: nni_http_req_get_version_def)
  have b: "http_sconn_rxdone ?env 0 0 [?h] (?s (Some ''HTTP/2.0'')) =
      Inr ([?h],
           (?s (Some ''HTTP/2.0''))\<lparr>sc_close := True,
              sc_res := Some (nni_http_res_set_header (?ie NNI_HTTP_STATUS_HTTP_VERSION_NOT_SUPP)
                                ''Connection'' ''close'')\<rparr>,
           [WriteRes (nni_http_res_set_header (?ie NNI_HTTP_STATUS_HTTP_VERSION_NOT_SUPP)
                        ''Connection'' ''close'')])"
    using version_policy [OF e1 e2 e3, where sc = "?s (Some ''HTTP/2.0'')" and req = "?r (Some ''HTTP/2.0'')"
        and start_rv = 0 and hs = "[?h]" and v = "''HTTP/2.0''"]
    by (simp add: nni_http_req_get_version_def)
  have c: "\<exists>hs' sc'. http_sconn_rxdone ?env 0 0 [?h] (?s (Some ''HTTP/1.0'')) =
        Inr (hs', sc', lookup_outcome ?ie 0 [?h] (?r (Some ''HTTP/1.0'')) ''/a'' True) \<and>
        sc_close sc'"
    using version_policy [OF e1 e2 e3, where sc = "?s (Some ''HTTP/1.0'')" and req = "?r (Some ''HTTP/1.0'')"
        and start_rv = 0 and hs = "[?h]" and v = "''HTTP/1.0''" and path = "''/a''"]
      ca
    by (simp add: nni_http_req_get_version_def nni_http_req_get_uri_def)
  have d: "\<exists>hs' sc'. http_sconn_rxdone ?env 0 0 [?h] (?s (Some ''HTTP/1.1'')) =
        Inr (hs', sc', lookup_outcome ?ie 0 [?h] (?r (Some ''HTTP/1.1'')) ''/a'' (sc_close sc')) \<and>
        (sc_close sc' \<longleftrightarrow> False)"
    using version_policy [OF e1 e2 e3, where sc = "?s (Some ''HTTP/1.1'')" and req = "?r (Some ''HTTP/1.1'')"
        and start_rv = 0 and hs = "[?h]" and path = "''/a''"]
      ca nowant [of "Some ''HTTP/1.1''"]
    by (simp add: nni_http_req_get_version_def nni_http_req_get_uri_def)
  have e: "http_sconn_rxdone ?env 0 0 [?h] (?s (Some v)) =
      Inr ([?h\<lparr>h_refcnt := 2\<rparr>], (?s (Some v))\<lparr>sc_close := (v \<noteq> ''HTTP/1.1'')\<rparr>,
           [CallHandler (?h\<lparr>h_refcnt := 2\<rparr>)])"
    if "take 7 v = ''HTTP/1.''" for v
    using that ca lk [of "Some v"]
    by (cases "v = ''HTTP/1.1''")
       (simp_all add: http_sconn_rxdone_def nni_http_req_get_version_def nni_http_req_get_uri_def
         nni_http_req_get_header_def strncmp_eq_0 strcmp_eq_0 Let_def)
  have c': "http_sconn_rxdone ?env 0 0 [?h] (?s (Some ''HTTP/1.0'')) =
      Inr ([?h\<lparr>h_refcnt := 2\<rparr>], (?s (Some ''HTTP/1.0''))\<lparr>sc_close := True\<rparr>,
           [CallHandler (?h\<lparr>h_refcnt := 2\<rparr>)])"
    using c e [of "''HTTP/1.0''"] by simp
  have d': "http_sconn_rxdone ?env 0 0 [?h] (?s (Some ''HTTP/1.1'')) =
      Inr ([?h\<lparr>h_refcnt := 2\<rparr>], ?s (Some ''HTTP/1.1''),
           [CallHandler (?h\<lparr>h_refcnt := 2\<rparr>)])"
    using d e [of "''HTTP/1.1''"] by simp
  show ?thesis
    using a b c' d'
    by (simp add: NNI_HTTP_STATUS_BAD_REQUEST_def NNI_HTTP_STATUS_HTTP_VERSION_NOT_SUPP_def
        nni_http_res_set_header_def)
qed

text \<open>
  C6. For a request with method \<open>HEAD\<close>: the method test of the lookup accepts a handler
  registered for \<open>GET\<close>, so that the lookup stops at the first handler for \<open>GET\<close> that
  matches host and path; and when the header write has succeeded no body write is posted,
  whatever the body of the response, and with the close flag clear the session frees the
  response and posts the read of the next request.
\<close>

theorem head_matches_get_and_sends_no_body:
  assumes "nni_http_req_get_method req = ''HEAD''"
  shows "(rxdone_method_match h req \<longleftrightarrow> h_method h = ''GET'' \<or> h_method h = ''HEAD'') \<and>
   (h_method h = ''GET'' \<and> rxdone_host_match h req \<and> rxdone_path_match h path \<and>
    (\<forall>h' \<in> set pre. \<not> (rxdone_host_match h' req \<and> rxdone_path_match h' path \<and>
                          rxdone_method_match h' req))
    \<longrightarrow> fst (rxdone_lookup (pre @ h # post) 0 req path False) = Some (length pre)) \<and>
   (sc_req sc = Some req \<longrightarrow>
      (\<exists>sc' ops. http_sconn_txdone 0 sc = Inr (sc', ops) \<and>
         (\<forall>d. WriteFull d \<notin> set ops) \<and>
         (\<not> sc_close sc \<longrightarrow>
            sc' = sc\<lparr>sc_res := None\<rparr> \<and>
            ops = (if sc_res sc \<noteq> None then [ResFini] else []) @ [ReqReset, ReadReq])))"
proof -
  have m: "rxdone_method_match h req \<longleftrightarrow> h_method h = ''GET'' \<or> h_method h = ''HEAD''"
    using assms by (auto simp: rxdone_method_match_def strcmp_eq_0)
  have l: "h_method h = ''GET'' \<and> rxdone_host_match h req \<and> rxdone_path_match h path \<and>
    (\<forall>h' \<in> set pre. \<not> (rxdone_host_match h' req \<and> rxdone_path_match h' path \<and>
                          rxdone_method_match h' req))
    \<longrightarrow> fst (rxdone_lookup (pre @ h # post) 0 req path False) = Some (length pre)"
    using m by (auto simp: rxdone_lookup_found)
  have t: "sc_req sc = Some req \<longrightarrow>
      (\<exists>sc' ops. http_sconn_txdone 0 sc = Inr (sc', ops) \<and>
         (\<forall>d. WriteFull d \<notin> set ops) \<and>
         (\<not> sc_close sc \<longrightarrow>
            sc' = sc\<lparr>sc_res := None\<rparr> \<and>
            ops = (if sc_res sc \<noteq> None then [ResFini] else []) @ [ReqReset, ReadReq]))"
    using assms
    by (auto simp: http_sconn_txdone_def strcmp_eq_0 http_sconn_close_def
        http_sconn_close_locked_def)
  show ?thesis using m l t by blast
qed

theorem head_matches_get_and_sends_no_body_witness:
  "rxdone_method_match
     \<lparr>h_arg = 0, h_path = ''/a'', h_method = ''GET'', h_host = None, h_is_upgrader = False,
      h_is_dir = False, h_refcnt = 1, h_cb = 7, h_free = None\<rparr>
     \<lparr>req_version = Some ''HTTP/1.1'', req_method = ''HEAD'', req_uri = ''/a'',
      req_headers = []\<rparr> \<and>
   fst (rxdone_lookup
     [\<lparr>h_arg = 0, h_path = ''/a'', h_method = ''GET'', h_host = None, h_is_upgrader = False,
       h_is_dir = False, h_refcnt = 1, h_cb = 7, h_free = None\<rparr>] 0
     \<lparr>req_version = Some ''HTTP/1.1'', req_method = ''HEAD'', req_uri = ''/a'',
      req_headers = []\<rparr> ''/a'' False) = Some 0 \<and>
   http_sconn_txdone 0
     \<lparr>sc_http = Some 1,
      sc_req = Some \<lparr>req_version = Some ''HTTP/1.1'', req_method = ''HEAD'', req_uri = ''/a'',
                     req_headers = []\<rparr>,
      sc_res = Some \<lparr>res_status = 200, res_headers = [(''Content-Length'', ''100'')],
                     res_data = replicate 100 (CHR ''x'')\<rparr>,
      sc_close = False, sc_closed = False, sc_finished = False\<rparr>
   = Inr (\<lparr>sc_http = Some 1,
           sc_req = Some \<lparr>req_version = Some ''HTTP/1.1'', req_method = ''HEAD'', req_uri = ''/a'',
                          req_headers = []\<rparr>,
           sc_res = None, sc_close = False, sc_closed = False, sc_finished = False\<rparr>,
          [ResFini, ReqReset, ReadReq])"
proof -
  let ?h = "\<lparr>h_arg = 0, h_path = ''/a'', h_method = ''GET'', h_host = None,
             h_is_upgrader = False, h_is_dir = False, h_refcnt = 1, h_cb = 7, h_free = None\<rparr>"
  let ?r = "\<lparr>req_version = Some ''HTTP/1.1'', req_method = ''HEAD'', req_uri = ''/a'',
             req_headers = []\<rparr>"
  let ?s = "\<lparr>sc_http = Some 1, sc_req = Some ?r,
             sc_res = Some \<lparr>res_status = 200, res_headers = [(''Content-Length'', ''100'')],
                            res_data = replicate 100 (CHR ''x'')\<rparr>,
             sc_close = False, sc_closed = False, sc_finished = False\<rparr>"
  have m: "nni_http_req_get_method ?r = ''HEAD''"
    by (simp add: nni_http_req_get_method_def)
  have hm: "rxdone_host_match ?h ?r"
    by (simp add: rxdone_host_match_def)
  have pm: "rxdone_path_match ?h ''/a''"
    by (simp add: rxdone_path_match_def strncmp_eq_0 char_at_def)
  note w = head_matches_get_and_sends_no_body [OF m, where h = ?h and path = "''/a''"
      and pre = "[]" and post = "[]" and sc = ?s]
  have a: "rxdone_method_match ?h ?r"
    using w by simp
  have b: "fst (rxdone_lookup [?h] 0 ?r ''/a'' False) = Some 0"
    using w hm pm by simp
  have c: "http_sconn_txdone 0 ?s = Inr (?s\<lparr>sc_res := None\<rparr>, [ResFini, ReqReset, ReadReq])"
    using w by auto
  show ?thesis
    using a b c by simp
qed

text \<open>
  C2. The claim: when the callback completes with a response, the close flag is set
  exactly when the response's \<^verbatim>\<open>Connection\<close> header contains \<open>close\<close> in any letter case
  (or the flag was set before). The code searches the header with \<^verbatim>\<open>strstr\<close>, which
  distinguishes case, where the same test on the request uses \<^verbatim>\<open>nni_strcasestr\<close>: a
  response with \<open>Connection: Close\<close> leaves the flag clear and is written unchanged.
\<close>

theorem cbdone_response_close_case_sensitive:
  "http_sconn_cbdone
     \<lparr>env_alloc_ok = True, env_init_error = (\<lambda>e. None), env_set_header_ok = True\<rparr> 0
     \<lparr>h_arg = 0, h_path = ''/a'', h_method = ''GET'', h_host = None, h_is_upgrader = False,
      h_is_dir = False, h_refcnt = 2, h_cb = 7, h_free = None\<rparr>
     (Some \<lparr>res_status = 200, res_headers = [(''Connection'', ''Close'')], res_data = ''ok''\<rparr>)
     \<lparr>sc_http = Some 1, sc_req = None, sc_res = None, sc_close = False, sc_closed = False,
      sc_finished = False\<rparr>
   = (\<lparr>h_arg = 0, h_path = ''/a'', h_method = ''GET'', h_host = None, h_is_upgrader = False,
       h_is_dir = False, h_refcnt = 1, h_cb = 7, h_free = None\<rparr>,
      \<lparr>sc_http = Some 1, sc_req = None,
       sc_res = Some \<lparr>res_status = 200, res_headers = [(''Connection'', ''Close'')],
                      res_data = ''ok''\<rparr>,
       sc_close = False, sc_closed = False, sc_finished = False\<rparr>,
      [WriteRes \<lparr>res_status = 200, res_headers = [(''Connection'', ''Close'')],
                 res_data = ''ok''\<rparr>]) \<and>
   nni_strcasestr ''Close'' ''close'' = Some 0 \<and> strstr ''Close'' ''close'' = None"
  by code_simp

text \<open>
  What the code does with a response: the flag is set when it was set before or the
  header contains \<open>close\<close> in lower case, and a response written with the flag set
  carries \<open>Connection: close\<close> when the codec could set it.
\<close>

lemma get_set_header: "get_header (set_header hs key val) key = Some val"
  by (induction hs) (auto simp: nni_strcasecmp_eq_0)

lemma cbdone_response:
  "http_sconn_cbdone env 0 h (Some r) sc = (h', sc', ops) \<Longrightarrow>
     (sc_close sc' \<longleftrightarrow>
        sc_close sc \<or>
        (\<exists>val. nni_http_res_get_header r ''Connection'' = Some val \<and> strstr val ''close'' \<noteq> None)) \<and>
     (\<exists>r'. ops = (if h_refcnt h' = 0 then [HandlerFini h'] else []) @ [WriteRes r'] \<and>
           sc_res sc' = Some r' \<and>
           (sc_close sc' \<and> env_set_header_ok env \<longrightarrow>
              nni_http_res_get_header r' ''Connection'' = Some ''close'') \<and>
           (\<not> sc_close sc' \<longrightarrow> r' = r))"
  by (cases "nni_http_res_get_header r ''Connection''")
     (auto simp: http_sconn_cbdone_def Let_def nni_http_res_get_header_def
        nni_http_res_set_header_def get_set_header split: if_splits)

section \<open>Properties of start and stop\<close>

lemma stop_conns_length: "stop_conns scs i = (cs, ops) \<Longrightarrow> length cs = length scs"
  by (induction scs arbitrary: i cs ops) (auto simp: Let_def split: prod.splits)

lemma stop_conns_nth:
  "stop_conns scs i = (cs, ops) \<Longrightarrow> k < length scs \<Longrightarrow>
     cs ! k = fst (http_sconn_close_locked (scs ! k)) \<and>
     Conn (i + k) ` set (snd (http_sconn_close_locked (scs ! k))) \<subseteq> set ops"
proof (induction scs arbitrary: i k cs ops)
  case Nil
  then show ?case by simp
next
  case (Cons sc scs)
  obtain sc' o1 where cl: "http_sconn_close_locked sc = (sc', o1)"
    by (cases "http_sconn_close_locked sc") auto
  obtain cs' o2 where rest: "stop_conns scs (Suc i) = (cs', o2)"
    by (cases "stop_conns scs (Suc i)") auto
  have cs: "cs = sc' # cs'" and ops: "ops = map (Conn i) o1 @ o2"
    using Cons.prems(1) cl rest by simp_all
  show ?case
  proof (cases k)
    case 0
    then show ?thesis using cs ops cl by auto
  next
    case (Suc k')
    then have "k' < length scs" using Cons.prems(2) by simp
    from Cons.IH [OF rest this] show ?thesis
      using Suc cs ops by auto
  qed
qed

lemma close_locked_closed: "sc_closed (fst (http_sconn_close_locked sc))"
  by (simp add: http_sconn_close_locked_def)

lemma close_locked_open:
  "\<not> sc_closed sc \<Longrightarrow>
     fst (http_sconn_close_locked sc) = sc\<lparr>sc_closed := True\<rparr> \<and>
     {AioCancel RxAio, AioCancel TxAio, AioCancel TxDataAio, AioCancel CbAio, Reap}
       \<subseteq> set (snd (http_sconn_close_locked sc))"
  by (simp add: http_sconn_close_locked_def)

text \<open>
  C9. A start that succeeds raises \<open>starts\<close> by one and a failed one leaves it; a start
  made while \<open>starts\<close> is not zero does nothing else, and a successful start made at zero
  creates the endpoint, listens and posts the first accept. A stop lowers \<open>starts\<close> by
  one; a stop that does not bring it to zero does nothing else, and the stop that brings
  it to zero on a server not yet closed sets the closed flag, closes the endpoint and
  closes every session of the live set: each session still open is flagged closed, its
  four slots are cancelled and it is handed to the reaper.
\<close>

theorem start_stop_balanced:
  "(nni_http_server_start env s = (s', ops, rv) \<longrightarrow>
      (rv = 0 \<longrightarrow> s_starts s' = s_starts s + 1) \<and>
      (rv \<noteq> 0 \<longrightarrow> s_starts s' = s_starts s) \<and>
      (s_starts s \<noteq> 0 \<longrightarrow> rv = 0 \<and> ops = [] \<and> s' = s\<lparr>s_starts := s_starts s + 1\<rparr>) \<and>
      (s_starts s = 0 \<and> rv = 0 \<longrightarrow>
         ops = [EpInit, EpListen, EpAccept] \<and>
         s' = s\<lparr>s_tep := Some (ep_new env), s_starts := 1\<rparr>)) \<and>
   (nni_http_server_stop s = (t, tops) \<longrightarrow>
      s_starts t = s_starts s - 1 \<and>
      (s_starts t \<noteq> 0 \<or> s_closed s \<longrightarrow> tops = [] \<and> t = s\<lparr>s_starts := s_starts s - 1\<rparr>) \<and>
      (s_starts t = 0 \<and> \<not> s_closed s \<longrightarrow>
         s_closed t \<and>
         (s_tep s \<noteq> None \<longrightarrow> EpClose \<in> set tops) \<and>
         length (s_conns t) = length (s_conns s) \<and>
         (\<forall>k < length (s_conns s).
            sc_closed (s_conns t ! k) \<and>
            (\<not> sc_closed (s_conns s ! k) \<longrightarrow>
               s_conns t ! k = (s_conns s ! k)\<lparr>sc_closed := True\<rparr> \<and>
               Conn k (AioCancel RxAio) \<in> set tops \<and> Conn k (AioCancel TxAio) \<in> set tops \<and>
               Conn k (AioCancel TxDataAio) \<in> set tops \<and> Conn k (AioCancel CbAio) \<in> set tops \<and>
               Conn k Reap \<in> set tops))))"
proof -
  have start: "nni_http_server_start env s = (s', ops, rv) \<longrightarrow>
      (rv = 0 \<longrightarrow> s_starts s' = s_starts s + 1) \<and>
      (rv \<noteq> 0 \<longrightarrow> s_starts s' = s_starts s) \<and>
      (s_starts s \<noteq> 0 \<longrightarrow> rv = 0 \<and> ops = [] \<and> s' = s\<lparr>s_starts := s_starts s + 1\<rparr>) \<and>
      (s_starts s = 0 \<and> rv = 0 \<longrightarrow>
         ops = [EpInit, EpListen, EpAccept] \<and>
         s' = s\<lparr>s_tep := Some (ep_new env), s_starts := 1\<rparr>)"
    by (auto simp: nni_http_server_start_def http_server_start_def split: if_splits)
  have stop: "s_starts t = s_starts s - 1 \<and>
      (s_starts t \<noteq> 0 \<or> s_closed s \<longrightarrow> tops = [] \<and> t = s\<lparr>s_starts := s_starts s - 1\<rparr>) \<and>
      (s_starts t = 0 \<and> \<not> s_closed s \<longrightarrow>
         s_closed t \<and>
         (s_tep s \<noteq> None \<longrightarrow> EpClose \<in> set tops) \<and>
         length (s_conns t) = length (s_conns s) \<and>
         (\<forall>k < length (s_conns s).
            sc_closed (s_conns t ! k) \<and>
            (\<not> sc_closed (s_conns s ! k) \<longrightarrow>
               s_conns t ! k = (s_conns s ! k)\<lparr>sc_closed := True\<rparr> \<and>
               Conn k (AioCancel RxAio) \<in> set tops \<and> Conn k (AioCancel TxAio) \<in> set tops \<and>
               Conn k (AioCancel TxDataAio) \<in> set tops \<and> Conn k (AioCancel CbAio) \<in> set tops \<and>
               Conn k Reap \<in> set tops)))"
    if st: "nni_http_server_stop s = (t, tops)"
  proof -
    have dec: "s_starts t = s_starts s - 1"
      using st
      by (auto simp: nni_http_server_stop_def http_server_stop_def Let_def
          split: if_splits prod.splits)
    have idle: "tops = [] \<and> t = s\<lparr>s_starts := s_starts s - 1\<rparr>"
      if "s_starts t \<noteq> 0 \<or> s_closed s"
      using st that dec
      by (auto simp: nni_http_server_stop_def http_server_stop_def Let_def
          split: if_splits prod.splits)
    have tear: "s_closed t \<and>
         (s_tep s \<noteq> None \<longrightarrow> EpClose \<in> set tops) \<and>
         length (s_conns t) = length (s_conns s) \<and>
         (\<forall>k < length (s_conns s).
            sc_closed (s_conns t ! k) \<and>
            (\<not> sc_closed (s_conns s ! k) \<longrightarrow>
               s_conns t ! k = (s_conns s ! k)\<lparr>sc_closed := True\<rparr> \<and>
               Conn k (AioCancel RxAio) \<in> set tops \<and> Conn k (AioCancel TxAio) \<in> set tops \<and>
               Conn k (AioCancel TxDataAio) \<in> set tops \<and> Conn k (AioCancel CbAio) \<in> set tops \<and>
               Conn k Reap \<in> set tops))"
      if z: "s_starts t = 0" and nc: "\<not> s_closed s"
    proof -
      obtain cs cops where sc: "stop_conns (s_conns s) 0 = (cs, cops)"
        by (cases "stop_conns (s_conns s) 0") auto
      have t: "t = s\<lparr>s_starts := s_starts s - 1, s_closed := True, s_conns := cs\<rparr>"
        and tops: "tops = (if s_tep s \<noteq> None then [EpClose] else []) @ cops @ [CvWake]"
        using st z dec nc sc
        by (auto simp: nni_http_server_stop_def http_server_stop_def Let_def split: if_splits)
      have len: "length cs = length (s_conns s)"
        using stop_conns_length [OF sc] .
      have each: "sc_closed (cs ! k) \<and>
            (\<not> sc_closed (s_conns s ! k) \<longrightarrow>
               cs ! k = (s_conns s ! k)\<lparr>sc_closed := True\<rparr> \<and>
               Conn k (AioCancel RxAio) \<in> set cops \<and> Conn k (AioCancel TxAio) \<in> set cops \<and>
               Conn k (AioCancel TxDataAio) \<in> set cops \<and> Conn k (AioCancel CbAio) \<in> set cops \<and>
               Conn k Reap \<in> set cops)" if k: "k < length (s_conns s)" for k
      proof -
        have n: "cs ! k = fst (http_sconn_close_locked (s_conns s ! k))"
          and sub: "Conn k ` set (snd (http_sconn_close_locked (s_conns s ! k))) \<subseteq> set cops"
          using stop_conns_nth [OF sc k] by simp_all
        have c: "sc_closed (cs ! k)"
          using n close_locked_closed by simp
        show ?thesis
          using c n sub close_locked_open [of "s_conns s ! k"] by auto
      qed
      show ?thesis
        using t tops len each by auto
    qed
    show ?thesis
      using dec idle tear by blast
  qed
  show ?thesis
    using start stop by blast
qed

theorem start_stop_balanced_witness:
  "nni_http_server_start \<lparr>ep_init_rv = 0, ep_new = 9, ep_listen_rv = 0\<rparr>
     \<lparr>s_refcnt = 1, s_starts = 0, s_handlers = [],
      s_conns = [\<lparr>sc_http = Some 1, sc_req = None, sc_res = None, sc_close = False,
                  sc_closed = False, sc_finished = False\<rparr>],
      s_closed = False, s_tls = None, s_tep = None\<rparr>
   = (\<lparr>s_refcnt = 1, s_starts = 1, s_handlers = [],
       s_conns = [\<lparr>sc_http = Some 1, sc_req = None, sc_res = None, sc_close = False,
                   sc_closed = False, sc_finished = False\<rparr>],
       s_closed = False, s_tls = None, s_tep = Some 9\<rparr>,
      [EpInit, EpListen, EpAccept], 0) \<and>
   nni_http_server_start \<lparr>ep_init_rv = 0, ep_new = 10, ep_listen_rv = 0\<rparr>
     \<lparr>s_refcnt = 1, s_starts = 1, s_handlers = [],
      s_conns = [\<lparr>sc_http = Some 1, sc_req = None, sc_res = None, sc_close = False,
                  sc_closed = False, sc_finished = False\<rparr>],
      s_closed = False, s_tls = None, s_tep = Some 9\<rparr>
   = (\<lparr>s_refcnt = 1, s_starts = 2, s_handlers = [],
       s_conns = [\<lparr>sc_http = Some 1, sc_req = None, sc_res = None, sc_close = False,
                   sc_closed = False, sc_finished = False\<rparr>],
       s_closed = False, s_tls = None, s_tep = Some 9\<rparr>,
      [], 0) \<and>
   nni_http_server_stop
     \<lparr>s_refcnt = 1, s_starts = 2, s_handlers = [],
      s_conns = [\<lparr>sc_http = Some 1, sc_req = None, sc_res = None, sc_close = False,
                  sc_closed = False, sc_finished = False\<rparr>],
      s_closed = False, s_tls = None, s_tep = Some 9\<rparr>
   = (\<lparr>s_refcnt = 1, s_starts = 1, s_handlers = [],
       s_conns = [\<lparr>sc_http = Some 1, sc_req = None, sc_res = None, sc_close = False,
                   sc_closed = False, sc_finished = False\<rparr>],
       s_closed = False, s_tls = None, s_tep = Some 9\<rparr>,
      []) \<and>
   nni_http_server_stop
     \<lparr>s_refcnt = 1, s_starts = 1, s_handlers = [],
      s_conns = [\<lparr>sc_http = Some 1, sc_req = None, sc_res = None, sc_close = False,
                  sc_closed = False, sc_finished = False\<rparr>],
      s_closed = False, s_tls = None, s_tep = Some 9\<rparr>
   = (\<lparr>s_refcnt = 1, s_starts = 0, s_handlers = [],
       s_conns = [\<lparr>sc_http = Some 1, sc_req = None, sc_res = None, sc_close = False,
                   sc_closed = True, sc_finished = False\<rparr>],
       s_closed = True, s_tls = None, s_tep = Some 9\<rparr>,
      [EpClose, Conn 0 (AioCancel RxAio), Conn 0 (AioCancel TxAio), Conn 0 (AioCancel TxDataAio),
       Conn 0 (AioCancel CbAio), Conn 0 HttpClose, Conn 0 Reap, CvWake])"
proof -
  let ?c = "\<lparr>sc_http = Some 1, sc_req = None, sc_res = None, sc_close = False,
             sc_closed = False, sc_finished = False\<rparr>"
  let ?s = "\<lambda>n ep. \<lparr>s_refcnt = 1, s_starts = n, s_handlers = [], s_conns = [?c],
             s_closed = False, s_tls = None, s_tep = ep\<rparr>"
  let ?e = "\<lambda>ep. \<lparr>ep_init_rv = 0, ep_new = ep, ep_listen_rv = 0\<rparr>"
  obtain s1 o1 r1 where st1: "nni_http_server_start (?e 9) (?s 0 None) = (s1, o1, r1)"
    by (metis prod_cases3)
  have r1: "r1 = 0"
    using st1 by (auto simp: nni_http_server_start_def http_server_start_def)
  have a: "nni_http_server_start (?e 9) (?s 0 None) = (?s 1 (Some 9), [EpInit, EpListen, EpAccept], 0)"
    using start_stop_balanced [where env = "?e 9" and s = "?s 0 None" and s' = s1 and ops = o1
        and rv = r1] st1 r1
    by simp
  obtain s2 o2 r2 where st2: "nni_http_server_start (?e 10) (?s 1 (Some 9)) = (s2, o2, r2)"
    by (metis prod_cases3)
  have b: "nni_http_server_start (?e 10) (?s 1 (Some 9)) = (?s 2 (Some 9), [], 0)"
    using start_stop_balanced [where env = "?e 10" and s = "?s 1 (Some 9)" and s' = s2
        and ops = o2 and rv = r2] st2
    by simp
  obtain t1 p1 where sp1: "nni_http_server_stop (?s 2 (Some 9)) = (t1, p1)"
    by (metis prod.exhaust)
  have c: "nni_http_server_stop (?s 2 (Some 9)) = (?s 1 (Some 9), [])"
    using start_stop_balanced [where s = "?s 2 (Some 9)" and t = t1 and tops = p1] sp1
    by simp
  have d: "nni_http_server_stop (?s 1 (Some 9)) =
      ((?s 0 (Some 9))\<lparr>s_closed := True, s_conns := [?c\<lparr>sc_closed := True\<rparr>]\<rparr>,
       [EpClose, Conn 0 (AioCancel RxAio), Conn 0 (AioCancel TxAio), Conn 0 (AioCancel TxDataAio),
        Conn 0 (AioCancel CbAio), Conn 0 HttpClose, Conn 0 Reap, CvWake])"
    by (simp add: nni_http_server_stop_def http_server_stop_def http_sconn_close_locked_def)
  show ?thesis
    using a b c d by simp
qed

end
